theory Spec2Isabelle
  imports Main
begin

section \<open>Go library functions used by the client\<close>

subsection \<open>Package strings\<close>

text \<open>
  Go strings are byte sequences; \<^typ>\<open>string\<close> is a list of 8-bit characters.
  \<open>strings.HasPrefix(s, prefix)\<close> is
  \<open>len(s) >= len(prefix) && s[:len(prefix)] == prefix\<close>.
\<close>

definition HasPrefix :: "string \<Rightarrow> string \<Rightarrow> bool" where
  "HasPrefix s pre = (length pre \<le> length s \<and> take (length pre) s = pre)"

text \<open>
  \<open>strings.Split(s, sep)\<close> for a separator of one byte (the client only splits on a
  single space): the input is cut at every occurrence of the separator; an input without
  the separator is returned as its only segment, and the empty input gives one empty
  segment.
\<close>

fun Split :: "string \<Rightarrow> char \<Rightarrow> string list" where
  "Split [] sep = [[]]"
| "Split (c # cs) sep =
     (if c = sep then [] # Split cs sep
      else (case Split cs sep of
              [] \<Rightarrow> [[c]]
            | seg # segs \<Rightarrow> (c # seg) # segs))"

text \<open>
  \<open>strings.Join(elems, sep)\<close>: no element gives the empty string, one element is
  returned as it is, otherwise the first element is followed by \<open>sep + s\<close> for every
  further element \<open>s\<close>.
\<close>

fun Join :: "string list \<Rightarrow> string \<Rightarrow> string" where
  "Join [] sep = []"
| "Join [e] sep = e"
| "Join (e # es) sep = e @ concat (map (\<lambda>s. sep @ s) es)"

text \<open>
  \<open>strings.ToLower\<close> on bytes: an upper-case ASCII letter is moved to lower case by adding
  \<open>'a' - 'A'\<close>, every other byte is kept. (For input outside ASCII the library maps
  runes through the Unicode tables; no rune outside ASCII has one of the letters
  \<open>t\<close>, \<open>r\<close>, \<open>u\<close>, \<open>e\<close> as its lower case, so the comparison with \<open>true\<close> that the
  client makes is decided by the ASCII letters alone.)
\<close>

definition to_lower :: "char \<Rightarrow> char" where
  "to_lower c =
     (if 65 \<le> (of_char c :: nat) \<and> (of_char c :: nat) \<le> 90
      then char_of ((of_char c :: nat) + 32) else c)"

definition ToLower :: "string \<Rightarrow> string" where
  "ToLower s = map to_lower s"

subsection \<open>Errors and abnormal termination\<close>

text \<open>
  A Go \<open>error\<close> is \<^typ>\<open>'a option\<close> over the type below (\<open>nil\<close> is \<open>None\<close>). A nil pointer
  dereference stops the program: an operation that can run into one returns an
  \<open>outcome\<close>.
\<close>

datatype error =
    Errorf string
  | PathError string
  | UnsupportedValueError
  | CollaboratorError string

datatype 'a outcome = Panics | Returns 'a

subsection \<open>Package fmt\<close>

text \<open>The verb \<open>%d\<close> on an integer: decimal digits, with a minus sign when negative.\<close>

fun FormatUint :: "nat \<Rightarrow> string" where
  "FormatUint n =
     (if n < 10 then [''0123456789'' ! n]
      else FormatUint (n div 10) @ [''0123456789'' ! (n mod 10)])"

declare FormatUint.simps [simp del]

definition Sprint_d :: "int \<Rightarrow> string" where
  "Sprint_d i = (if i < 0 then CHR ''-'' # FormatUint (nat (- i)) else FormatUint (nat i))"

subsection \<open>Package strconv\<close>

text \<open>
  \<open>strconv.ParseInt(s, 10, 64)\<close>. \<open>ParseUint\<close> reads the digits from the left into an
  unsigned 64-bit accumulator (written here on \<^typ>\<open>nat\<close> with the wrap-around
  \<open>mod 2 ^ 64\<close> of the machine type): a byte that is not a decimal digit ends it with a
  syntax error and the value 0; an accumulator that would overflow ends it at once with
  a range error and the largest value. \<open>ParseInt\<close> takes an optional sign off, keeps
  the syntax error (value 0), and turns a magnitude outside the signed range into a range
  error with the nearest bound of the type as its value.
\<close>

datatype NumError = ErrSyntax | ErrRange

definition maxUint64 :: nat where
  "maxUint64 = 2 ^ 64 - 1"

fun ParseUint_loop :: "nat \<Rightarrow> string \<Rightarrow> nat \<times> NumError option" where
  "ParseUint_loop n [] = (n, None)"
| "ParseUint_loop n (c # cs) =
     (if 48 \<le> (of_char c :: nat) \<and> (of_char c :: nat) \<le> 57 then
        (if n \<ge> maxUint64 div 10 + 1 then (maxUint64, Some ErrRange)
         else (let n' = (n * 10) mod 2 ^ 64;
                   n1 = (n' + (of_char c - 48)) mod 2 ^ 64
               in if n1 < n' \<or> n1 > maxUint64 then (maxUint64, Some ErrRange)
                  else ParseUint_loop n1 cs))
      else (0, Some ErrSyntax))"

definition ParseUint :: "string \<Rightarrow> nat \<times> NumError option" where
  "ParseUint s = (if s = [] then (0, Some ErrSyntax) else ParseUint_loop 0 s)"

text \<open>The conversion \<open>int64(x)\<close>: the value modulo \<open>2 ^ 64\<close>, read as a signed number.\<close>

definition int64 :: "int \<Rightarrow> int" where
  "int64 x = (x + 2 ^ 63) mod 2 ^ 64 - 2 ^ 63"

definition ParseInt :: "string \<Rightarrow> int \<times> NumError option" where
  "ParseInt s =
     (if s = [] then (0, Some ErrSyntax)
      else
        (let neg = (hd s = CHR ''-'');
             s' = (if hd s = CHR ''+'' \<or> hd s = CHR ''-'' then tl s else s)
         in case ParseUint s' of
              (un, err) \<Rightarrow>
                if err \<noteq> None \<and> err \<noteq> Some ErrRange then (0, err)
                else if \<not> neg \<and> un \<ge> 2 ^ 63 then (2 ^ 63 - 1, Some ErrRange)
                else if neg \<and> un > 2 ^ 63 then (- (2 ^ 63), Some ErrRange)
                else (let n = int64 (int un)
                      in ((if neg then int64 (- n) else n), None))))"

subsection \<open>Package net/url\<close>

text \<open>
  \<open>url.QueryEscape\<close>: letters, digits and \<open>- _ . ~\<close> are kept, a space becomes \<open>+\<close>,
  every other byte becomes \<open>%\<close> and its two upper-case hexadecimal digits.
  \<open>Values.Encode\<close> writes \<open>key=value\<close> for every value of every key, in the order of the
  sorted keys, joined by \<open>&\<close>; the association list holds the keys in that order.
\<close>

definition shouldEscape :: "char \<Rightarrow> bool" where
  "shouldEscape c =
     (let n = (of_char c :: nat)
      in \<not> ((97 \<le> n \<and> n \<le> 122) \<or> (65 \<le> n \<and> n \<le> 90) \<or> (48 \<le> n \<and> n \<le> 57) \<or>
              c = CHR ''-'' \<or> c = CHR ''_'' \<or> c = CHR ''.'' \<or> c = CHR ''~''))"

definition escape_byte :: "char \<Rightarrow> string" where
  "escape_byte c =
     (if c = CHR '' '' then ''+''
      else if shouldEscape c
        then [CHR ''%'', ''0123456789ABCDEF'' ! ((of_char c :: nat) div 16),
              ''0123456789ABCDEF'' ! ((of_char c :: nat) mod 16)]
      else [c])"

definition QueryEscape :: "string \<Rightarrow> string" where
  "QueryEscape s = concat (map escape_byte s)"

definition Values_Encode :: "(string \<times> string list) list \<Rightarrow> string" where
  "Values_Encode v =
     Join (concat (map (\<lambda>(k, vs). map (\<lambda>x. QueryEscape k @ ''='' @ QueryEscape x) vs) v)) ''&''"

subsection \<open>Package path/filepath\<close>

text \<open>
  \<open>filepath.Base\<close> with the separator \<open>/\<close>: the last element of the path, after the
  trailing separators are dropped; \<open>.\<close> for the empty path and \<open>/\<close> for a path of
  separators only.
\<close>

definition filepath_Base :: "string \<Rightarrow> string" where
  "filepath_Base path =
     (if path = [] then ''.''
      else (let stripped = rev (dropWhile (\<lambda>c. c = CHR ''/'') (rev path));
                elem = rev (takeWhile (\<lambda>c. c \<noteq> CHR ''/'') (rev stripped))
            in if elem = [] then ''/'' else elem))"

subsection \<open>Package net/http: response headers\<close>

text \<open>
  \<open>Header.Get(key)\<close> for a key in canonical form (both keys the client asks for are):
  the first value stored under the key, the empty string when there is none.
\<close>

definition Header_Get :: "(string \<rightharpoonup> string list) \<Rightarrow> string \<Rightarrow> string" where
  "Header_Get h key = (case h key of None \<Rightarrow> [] | Some [] \<Rightarrow> [] | Some (v # _) \<Rightarrow> v)"

subsection \<open>Package mime/multipart\<close>

text \<open>
  The multipart writer appends to a buffer in memory, so none of its writes fails. The
  buffer is kept as the sequence of what was written: a file part (field name, file name,
  content), a form field (name, value), the closing boundary. \<open>CreateFormFile\<close> returns
  the writer of the new part: the content copied into that writer completes the part.
  The boundary is chosen at random when the writer is made (hexadecimal digits, which the
  content type carries without quotes); it is a parameter of the operations below.
\<close>

datatype chunk = FormFile string string string | FormField string string | ClosingBoundary

definition CreateFormFile :: "string \<Rightarrow> string \<Rightarrow> error + (string \<Rightarrow> chunk)" where
  "CreateFormFile fieldname filename = Inr (FormFile fieldname filename)"

definition WriteField :: "chunk list \<Rightarrow> string \<Rightarrow> string \<Rightarrow> error option \<times> chunk list" where
  "WriteField body fieldname val = (None, body @ [FormField fieldname val])"

definition Close :: "chunk list \<Rightarrow> error option \<times> chunk list" where
  "Close body = (None, body @ [ClosingBoundary])"

definition FormDataContentType :: "string \<Rightarrow> string" where
  "FormDataContentType boundary = ''multipart/form-data; boundary='' @ boundary"

section \<open>Package job: path resolution\<close>

text \<open>
  \<open>ParseJobPath\<close>: the loop \<open>path = fmt.Sprintf("%s/job/%s", path, item)\<close> over the
  segments is a left fold that starts from the empty path.
\<close>

definition ParseJobPath :: "string \<Rightarrow> string" where
  "ParseJobPath jobName =
     (if jobName = [] \<or> HasPrefix jobName ''/job/'' \<or> HasPrefix jobName ''job/''
      then jobName
      else foldl (\<lambda>path item. path @ ''/job/'' @ item) [] (Split jobName CHR '' ''))"

definition ParsePipelinePath :: "string list \<Rightarrow> string" where
  "ParsePipelinePath pipelines =
     (if length pipelines = 0 then []
      else ''pipelines/'' @ Join pipelines ''/pipelines/'')"

section \<open>Data model\<close>

text \<open>
  The structs of packages job and plugin, as records. An embedded struct is the parent of
  the record. A field whose name another struct already uses carries the struct's name
  as a suffix. A value of type \<open>interface{}\<close> is \<open>nil\<close>, a value that the JSON encoder
  renders as the given text, or a value that the encoder refuses.
\<close>

datatype any_value = AnyNil | AnyJSON string | AnyUnsupported

record DefaultParameterValue =
  Description_DPV :: string
  Value_DPV :: any_value

record ParameterDefinition =
  Description :: string
  Name :: string
  Type :: string
  Value :: string
  Filepath :: string
  DefaultParameterValue :: DefaultParameterValue

record ParametersDefinitionProperty =
  ParameterDefinitions :: "ParameterDefinition list"

record SimpleJobBuild =
  Number :: int
  URL :: string

record Build = SimpleJobBuild +
  Building :: bool
  Description_Build :: string
  DisplayName :: string
  Duration :: int
  EstimatedDuration :: int
  FullDisplayName :: string
  ID :: string
  KeepLog :: bool
  QueueID :: int
  Result :: string
  Timestamp :: int
  PreviousBuild :: SimpleJobBuild
  NextBuild :: SimpleJobBuild

record Job =
  Type_Job :: string
  Builds :: "Build list"
  Color :: string
  ConcurrentBuild :: bool
  Name_Job :: string
  NextBuildNumber :: int
  URL_Job :: string
  Buildable :: bool
  Property :: "ParametersDefinitionProperty list"

record Log =
  HasMore :: bool
  NextStart :: int
  Text :: string

record CreateJobPayload =
  Name_Payload :: string
  Mode :: string
  From :: string

typedecl Dependency

record Plugin =
  Active :: bool
  Enabled :: bool
  Bundled :: bool
  Downgradable :: bool
  Deleted :: bool

record InstalledPlugin = Plugin +
  Enable :: bool
  ShortName :: string
  LongName :: string
  Version :: string
  URL_Plugin :: string
  HasUpdate :: bool
  Pinned :: bool
  RequiredCoreVesion :: string
  MinimumJavaVersion :: string
  SupportDynamicLoad :: string
  BackVersion :: string
  Dependencies :: "Dependency list"

record InstalledPluginList =
  Plugins :: "InstalledPlugin list"

definition StringParameterDefinition :: string where
  "StringParameterDefinition = ''StringParameterDefinition''"

definition FileParameterDefinition :: string where
  "FileParameterDefinition = ''FileParameterDefinition''"

subsection \<open>JSON encoding of the structs\<close>

text \<open>
  \<open>json.Marshal\<close> writes a struct as an object with its fields in the order of their
  declaration, under the key of the field's tag or else the field's name, and a slice
  that is not nil as an array. The encoder of a string (quotes and escapes) is the
  parameter \<open>quote\<close>. Encoding fails only on a value of type \<open>interface{}\<close> that the
  encoder does not support.
\<close>

definition Marshal_any :: "any_value \<Rightarrow> error + string" where
  "Marshal_any v =
     (case v of
        AnyNil \<Rightarrow> Inr ''null''
      | AnyJSON t \<Rightarrow> Inr t
      | AnyUnsupported \<Rightarrow> Inl UnsupportedValueError)"

definition Marshal_DefaultParameterValue ::
  "(string \<Rightarrow> string) \<Rightarrow> DefaultParameterValue \<Rightarrow> error + string" where
  "Marshal_DefaultParameterValue quote d =
     (case Marshal_any (Value_DPV d) of
        Inl err \<Rightarrow> Inl err
      | Inr v \<Rightarrow>
          Inr (''{\"Description\":'' @ quote (Description_DPV d) @ '',\"Value\":'' @ v @ ''}''))"

definition Marshal_ParameterDefinition ::
  "(string \<Rightarrow> string) \<Rightarrow> ParameterDefinition \<Rightarrow> error + string" where
  "Marshal_ParameterDefinition quote p =
     (case Marshal_DefaultParameterValue quote (DefaultParameterValue p) of
        Inl err \<Rightarrow> Inl err
      | Inr d \<Rightarrow>
          Inr (''{\"Description\":'' @ quote (Description p) @
               '',\"name\":'' @ quote (Name p) @
               '',\"Type\":'' @ quote (Type p) @
               '',\"value\":'' @ quote (Value p) @
               '',\"file\":'' @ quote (Filepath p) @
               '',\"DefaultParameterValue\":'' @ d @ ''}''))"

fun Marshal_elements ::
  "(string \<Rightarrow> string) \<Rightarrow> ParameterDefinition list \<Rightarrow> error + string list" where
  "Marshal_elements quote [] = Inr []"
| "Marshal_elements quote (p # ps) =
     (case Marshal_ParameterDefinition quote p of
        Inl err \<Rightarrow> Inl err
      | Inr t \<Rightarrow>
          (case Marshal_elements quote ps of
             Inl err \<Rightarrow> Inl err
           | Inr ts \<Rightarrow> Inr (t # ts)))"

definition Marshal_ParameterDefinitions ::
  "(string \<Rightarrow> string) \<Rightarrow> ParameterDefinition list \<Rightarrow> error + string" where
  "Marshal_ParameterDefinitions quote ps =
     (case Marshal_elements quote ps of
        Inl err \<Rightarrow> Inl err
      | Inr ts \<Rightarrow> Inr (''['' @ Join ts '','' @ '']''))"

definition Marshal_CreateJobPayload :: "(string \<Rightarrow> string) \<Rightarrow> CreateJobPayload \<Rightarrow> string" where
  "Marshal_CreateJobPayload quote p =
     ''{\"name\":'' @ quote (Name_Payload p) @ '',\"mode\":'' @ quote (Mode p) @
     '',\"from\":'' @ quote (From p) @ ''}''"

section \<open>The collaborators\<close>

text \<open>
  The requests go through package core and the HTTP client, whose code lies outside the
  files verified here. Each of their functions is a parameter of the operation that calls
  it: a function of the state of the world outside the program (the server, the network)
  that returns its Go results and the next state. A request records what the operation
  hands over: method, path, headers and body.
\<close>

datatype reader = StringReader string | MultipartBuffer "chunk list"

record core_request =
  req_method :: string
  req_api :: string
  req_headers :: "string \<rightharpoonup> string"
  req_payload :: "reader option"

type_synonym 'w Request_fn =
  "'w \<Rightarrow> core_request \<Rightarrow> (int \<times> string \<times> error option) \<times> 'w"

type_synonym 'w RequestWithoutData_fn =
  "'w \<Rightarrow> core_request \<Rightarrow> int \<Rightarrow> (int \<times> error option) \<times> 'w"

type_synonym ('w, 'a) RequestWithData_fn =
  "'w \<Rightarrow> core_request \<Rightarrow> int \<Rightarrow> ('a option \<times> error option) \<times> 'w"

text \<open>
  Modelled from the spec: the constants \<open>ContentType\<close> and \<open>ApplicationForm\<close> of package
  httpdownloader are declared outside the files verified here; the form submissions are
  sent with the content type \<open>application/x-www-form-urlencoded\<close>.
\<close>

definition ContentType :: string where
  "ContentType = ''Content-Type''"

definition ApplicationForm :: string where
  "ApplicationForm = ''application/x-www-form-urlencoded''"

text \<open>
  An HTTP response as the log reader sees it: the status code, the headers (a map that
  may be nil) and what reading the body to its end gives (the bytes read and the error
  of the read).
\<close>

record Response =
  StatusCode :: int
  Header :: "(string \<rightharpoonup> string list) option"
  Body :: "string \<times> error option"

section \<open>Package job: operations\<close>

definition GetJob ::
  "('w, Job) RequestWithData_fn \<Rightarrow> 'w \<Rightarrow> string \<Rightarrow> (Job option \<times> error option) \<times> 'w" where
  "GetJob RequestWithData w name =
     (let path = ParseJobPath name;
          api = path @ ''/api/json''
      in RequestWithData w
           \<lparr>req_method = ''GET'', req_api = api, req_headers = Map.empty, req_payload = None\<rparr> 200)"

definition GetBuild ::
  "('w, Build) RequestWithData_fn \<Rightarrow> 'w \<Rightarrow> string \<Rightarrow> int \<Rightarrow> (Build option \<times> error option) \<times> 'w" where
  "GetBuild RequestWithData w jobName build_id =
     (let path = ParseJobPath jobName;
          api = (if build_id = - 1 then path @ ''/lastBuild/api/json''
                 else path @ ''/'' @ Sprint_d build_id @ ''/api/json'')
      in RequestWithData w
           \<lparr>req_method = ''GET'', req_api = api, req_headers = Map.empty, req_payload = None\<rparr> 200)"

text \<open>
  The loop of \<open>GetHistory\<close>: \<open>builds\<close> is the slice built so far. A fetch that fails
  breaks the loop with its error; when the list is used up the error is nil.
\<close>

fun GetHistory_loop ::
  "('w, Build) RequestWithData_fn \<Rightarrow> string \<Rightarrow> 'w \<Rightarrow> Build option list \<Rightarrow> Build list \<Rightarrow>
   (Build option list \<times> error option) \<times> 'w" where
  "GetHistory_loop RequestWithData name w builds [] = ((builds, None), w)"
| "GetHistory_loop RequestWithData name w builds (buildItem # buildList) =
     (case GetBuild RequestWithData w name (Number buildItem) of
        ((build, err), w') \<Rightarrow>
          if err \<noteq> None then ((builds, err), w')
          else GetHistory_loop RequestWithData name w' (builds @ [build]) buildList)"

definition GetHistory ::
  "('w, Job) RequestWithData_fn \<Rightarrow> ('w, Build) RequestWithData_fn \<Rightarrow> 'w \<Rightarrow> string \<Rightarrow>
   (Build option list \<times> error option) outcome \<times> 'w" where
  "GetHistory RequestWithData_Job RequestWithData_Build w name =
     (case GetJob RequestWithData_Job w name of
        ((job, err), w1) \<Rightarrow>
          if err = None then
            (case job of
               None \<Rightarrow> (Panics, w1)
             | Some j \<Rightarrow>
                 (case GetHistory_loop RequestWithData_Build name w1 [] (Builds j) of
                    (r, w2) \<Rightarrow> (Returns r, w2)))
          else (Returns ([], err), w1))"

text \<open>
  \<open>Log\<close>. The base URL of the server (the field \<open>URL\<close> of the embedded core) is the
  parameter \<open>core_URL\<close>; \<open>Log_api\<close> is the address that the operation computes first.
  The request is made by \<open>http.NewRequest\<close>, signed by \<open>AuthHandle\<close> and sent by the
  client's \<open>Do\<close>; the debug output of the request as a curl command is left out.
\<close>

definition Log_api :: "string \<Rightarrow> string \<Rightarrow> int \<Rightarrow> int \<Rightarrow> string" where
  "Log_api core_URL jobName history start =
     (let path = ParseJobPath jobName
      in if history = - 1
         then core_URL @ path @ ''/lastBuild/logText/progressiveText?start='' @ Sprint_d start
         else core_URL @ path @ ''/'' @ Sprint_d history @
              ''/logText/progressiveText?start='' @ Sprint_d start)"

definition Log ::
  "string \<Rightarrow> (string \<Rightarrow> string \<Rightarrow> error + 'req) \<Rightarrow>
   ('w \<Rightarrow> 'req \<Rightarrow> (error option \<times> 'req) \<times> 'w) \<Rightarrow>
   ('w \<Rightarrow> 'req \<Rightarrow> (error + Response) \<times> 'w) \<Rightarrow>
   'w \<Rightarrow> string \<Rightarrow> int \<Rightarrow> int \<Rightarrow> (Log \<times> error option) \<times> 'w" where
  "Log core_URL NewRequest AuthHandle Do w jobName history start =
     (let api = Log_api core_URL jobName history start
      in case NewRequest ''GET'' api of
           Inl err \<Rightarrow> ((\<lparr>HasMore = False, NextStart = 0, Text = []\<rparr>, Some err), w)
         | Inr req \<Rightarrow>
             (case AuthHandle w req of
                ((Some err, req'), w1) \<Rightarrow>
                  ((\<lparr>HasMore = False, NextStart = 0, Text = []\<rparr>, Some err), w1)
              | ((None, req'), w1) \<Rightarrow>
                  (let jobLog = \<lparr>HasMore = False, NextStart = 0, Text = []\<rparr>
                   in case Do w1 req' of
                        (Inl err, w2) \<Rightarrow> ((jobLog, Some err), w2)
                      | (Inr response, w2) \<Rightarrow>
                          (let code = StatusCode response
                           in case Body response of
                                (data, err) \<Rightarrow>
                                  if code = 200 then
                                    (case Header response of
                                       None \<Rightarrow> ((jobLog\<lparr>Text := data\<rparr>, err), w2)
                                     | Some h \<Rightarrow>
                                         ((jobLog
                                            \<lparr>Text := data,
                                             HasMore := (ToLower (Header_Get h ''X-More-Data'') = ''true''),
                                             NextStart := fst (ParseInt (Header_Get h ''X-Text-Size''))\<rparr>,
                                           err), w2))
                                  else ((jobLog, err), w2)))))"

text \<open>
  \<open>BuildWithParams\<close>. The file system is the parameter \<open>fs\<close>: opening a path fails with
  an error or gives a file, which stands here for the bytes that \<open>io.Copy\<close> moves out of
  it (the error of the copy is assigned and never looked at). The loop over the parameters
  carries the buffer of the multipart writer, \<open>hasFileParam\<close> and \<open>stringParameters\<close>, and
  returns at once when a file cannot be opened. The deferred calls (closing the files,
  closing the writer once more) run when the operation returns and change nothing that
  it returns or sends.
\<close>

fun BuildWithParams_loop ::
  "(string \<Rightarrow> error + string) \<Rightarrow> ParameterDefinition list \<Rightarrow>
   chunk list \<Rightarrow> bool \<Rightarrow> ParameterDefinition list \<Rightarrow>
   error + (chunk list \<times> bool \<times> ParameterDefinition list)" where
  "BuildWithParams_loop fs [] body hasFileParam stringParameters =
     Inr (body, hasFileParam, stringParameters)"
| "BuildWithParams_loop fs (parameter # rest) body hasFileParam stringParameters =
     (if Type parameter = FileParameterDefinition then
        (case fs (Filepath parameter) of
           Inl err \<Rightarrow> Inl err
         | Inr file \<Rightarrow>
             (case CreateFormFile (Filepath parameter) (filepath_Base (Filepath parameter)) of
                Inl err \<Rightarrow> Inl err
              | Inr fWriter \<Rightarrow>
                  BuildWithParams_loop fs rest (body @ [fWriter file]) True stringParameters))
      else BuildWithParams_loop fs rest body hasFileParam (stringParameters @ [parameter]))"

definition paramJSON ::
  "(string \<Rightarrow> string) \<Rightarrow> ParameterDefinition list \<Rightarrow> error + string" where
  "paramJSON quote stringParameters =
     (if length stringParameters = 1
      then Marshal_ParameterDefinition quote (stringParameters ! 0)
      else Marshal_ParameterDefinitions quote stringParameters)"

definition BuildWithParams ::
  "(string \<Rightarrow> string) \<Rightarrow> string \<Rightarrow> (string \<Rightarrow> error + string) \<Rightarrow>
   'w RequestWithoutData_fn \<Rightarrow> 'w \<Rightarrow> string \<Rightarrow> ParameterDefinition list \<Rightarrow>
   error option \<times> 'w" where
  "BuildWithParams quote boundary fs RequestWithoutData w jobName parameters =
     (let path = ParseJobPath jobName;
          api = path @ ''/build''
      in case BuildWithParams_loop fs parameters [] False [] of
           Inl err \<Rightarrow> (Some err, w)
         | Inr (body, hasFileParam, stringParameters) \<Rightarrow>
             (case paramJSON quote stringParameters of
                Inl err \<Rightarrow> (Some err, w)
              | Inr js \<Rightarrow>
                  if hasFileParam then
                    (case WriteField body ''json'' (''{\"parameter\": '' @ js @ ''}'') of
                       (Some err, body1) \<Rightarrow> (Some err, w)
                     | (None, body1) \<Rightarrow>
                         (case Close body1 of
                            (Some err, body2) \<Rightarrow> (Some err, w)
                          | (None, body2) \<Rightarrow>
                              (case RequestWithoutData w
                                      \<lparr>req_method = ''POST'', req_api = api,
                                       req_headers = [ContentType \<mapsto> FormDataContentType boundary],
                                       req_payload = Some (MultipartBuffer body2)\<rparr> 201 of
                                 ((code, err), w') \<Rightarrow> (err, w'))))
                  else
                    (let formData = [(''json'', [''{\"parameter\": '' @ js @ ''}''])];
                         payload = StringReader (Values_Encode formData)
                     in case RequestWithoutData w
                               \<lparr>req_method = ''POST'', req_api = api,
                                req_headers = [ContentType \<mapsto> ApplicationForm],
                                req_payload = Some payload\<rparr> 201 of
                          ((code, err), w') \<Rightarrow> (err, w'))))"

definition CreateJobInFolder_request ::
  "(string \<Rightarrow> string) \<Rightarrow> CreateJobPayload \<Rightarrow> string \<Rightarrow> core_request" where
  "CreateJobInFolder_request quote jobPayload path =
     (let playLoadData = Marshal_CreateJobPayload quote jobPayload;
          formData = [(''from'', [From jobPayload]), (''json'', [playLoadData]),
                      (''mode'', [Mode jobPayload]), (''name'', [Name_Payload jobPayload])];
          payload = StringReader (Values_Encode formData);
          path' = ParseJobPath path;
          api = ''/view/all'' @ path' @ ''/createItem''
      in \<lparr>req_method = ''POST'', req_api = api,
          req_headers = [ContentType \<mapsto> ApplicationForm], req_payload = Some payload\<rparr>)"

definition CreateJobInFolder ::
  "(string \<Rightarrow> string) \<Rightarrow> 'w RequestWithoutData_fn \<Rightarrow> 'w \<Rightarrow> CreateJobPayload \<Rightarrow> string \<Rightarrow>
   error option \<times> 'w" where
  "CreateJobInFolder quote RequestWithoutData w jobPayload path =
     (case RequestWithoutData w (CreateJobInFolder_request quote jobPayload path) 200 of
        ((code, err), w') \<Rightarrow> if code = 302 then (None, w') else (err, w'))"

definition Create ::
  "(string \<Rightarrow> string) \<Rightarrow> 'w RequestWithoutData_fn \<Rightarrow> 'w \<Rightarrow> CreateJobPayload \<Rightarrow> error option \<times> 'w" where
  "Create quote RequestWithoutData w jobPayload =
     CreateJobInFolder quote RequestWithoutData w jobPayload []"

definition Delete_request :: "string \<Rightarrow> core_request" where
  "Delete_request jobName =
     (let jobName' = ParseJobPath jobName;
          api = jobName' @ ''/doDelete'';
          header = [ContentType \<mapsto> ApplicationForm]
      in \<lparr>req_method = ''POST'', req_api = api, req_headers = header, req_payload = None\<rparr>)"

definition Delete :: "'w Request_fn \<Rightarrow> 'w \<Rightarrow> string \<Rightarrow> error option \<times> 'w" where
  "Delete Request w jobName =
     (case Request w (Delete_request jobName) of
        ((statusCode, data, err), w') \<Rightarrow>
          if err = None then
            (if statusCode \<noteq> 200 \<and> statusCode \<noteq> 302
             then (Some (Errorf (''unexpected status code: '' @ Sprint_d statusCode)), w')
             else (err, w'))
          else (err, w'))"

section \<open>Package plugin: operations\<close>

definition GetPlugins ::
  "('w, InstalledPluginList) RequestWithData_fn \<Rightarrow> 'w \<Rightarrow> int \<Rightarrow>
   (InstalledPluginList option \<times> error option) \<times> 'w" where
  "GetPlugins RequestWithData w depth =
     (if depth > 1 then
        RequestWithData w
          \<lparr>req_method = ''GET'', req_api = ''/pluginManager/api/json?depth='' @ Sprint_d depth,
           req_headers = Map.empty, req_payload = None\<rparr> 200
      else
        RequestWithData w
          \<lparr>req_method = ''GET'', req_api = ''/pluginManager/api/json?depth=1'',
           req_headers = Map.empty, req_payload = None\<rparr> 200)"

text \<open>The loop of \<open>FindInstalledPlugin\<close>: the first plugin with the name ends it.\<close>

fun FindInstalledPlugin_loop :: "InstalledPlugin list \<Rightarrow> string \<Rightarrow> InstalledPlugin option" where
  "FindInstalledPlugin_loop [] name = None"
| "FindInstalledPlugin_loop (plugin # rest) name =
     (if ShortName plugin = name then Some plugin else FindInstalledPlugin_loop rest name)"

definition FindInstalledPlugin ::
  "('w, InstalledPluginList) RequestWithData_fn \<Rightarrow> 'w \<Rightarrow> string \<Rightarrow>
   (InstalledPlugin option \<times> error option) outcome \<times> 'w" where
  "FindInstalledPlugin RequestWithData w name =
     (case GetPlugins RequestWithData w 1 of
        ((plugins, err), w') \<Rightarrow>
          if err = None then
            (case plugins of
               None \<Rightarrow> (Panics, w')
             | Some pl \<Rightarrow> (Returns (FindInstalledPlugin_loop (Plugins pl) name, None), w'))
          else (Returns (None, err), w'))"

section \<open>A specification of the log headers\<close>

text \<open>
  What the two header values mean, written independently of the library functions.
  \<open>matches_true\<close>: the value is the word \<open>true\<close> in any mix of upper and lower case.
  \<open>text_size\<close>: the value is read as an optional sign and decimal digits. It is 0 when
  no character follows the optional sign, or when a character that is not a digit comes
  while the digits before it still make a number below \<open>2 ^ 64\<close>; otherwise it is the
  signed number of the leading digits, cut to the range of a signed 64-bit integer.
  \<open>header_value\<close> is the first value of a header of the response, empty when the headers
  are nil or do not have the key.
\<close>

definition matches_true :: "string \<Rightarrow> bool" where
  "matches_true v =
     (case v of
        [a, b, c, d] \<Rightarrow>
          (a = CHR ''t'' \<or> a = CHR ''T'') \<and> (b = CHR ''r'' \<or> b = CHR ''R'') \<and>
          (c = CHR ''u'' \<or> c = CHR ''U'') \<and> (d = CHR ''e'' \<or> d = CHR ''E'')
      | _ \<Rightarrow> False)"

definition is_digit :: "char \<Rightarrow> bool" where
  "is_digit c = (48 \<le> (of_char c :: nat) \<and> (of_char c :: nat) \<le> 57)"

definition decimal_from :: "nat \<Rightarrow> string \<Rightarrow> nat" where
  "decimal_from n s = foldl (\<lambda>v c. v * 10 + (of_char c - 48)) n s"

definition decimal :: "string \<Rightarrow> nat" where
  "decimal s = decimal_from 0 s"

definition text_size :: "string \<Rightarrow> int" where
  "text_size s =
     (let neg = (s \<noteq> [] \<and> hd s = CHR ''-'');
          body = (if s \<noteq> [] \<and> (hd s = CHR ''+'' \<or> hd s = CHR ''-'') then tl s else s);
          ds = takeWhile is_digit body
      in if body = [] \<or> (ds \<noteq> body \<and> decimal ds < 2 ^ 64) then 0
         else if neg then max (- (2 ^ 63)) (- int (decimal ds))
         else min (2 ^ 63 - 1) (int (decimal ds)))"

definition header_value :: "Response \<Rightarrow> string \<Rightarrow> string" where
  "header_value response key =
     (case Header response of None \<Rightarrow> [] | Some h \<Rightarrow> Header_Get h key)"

section \<open>A specification of the build request\<close>

text \<open>
  The parameters of a build split into those with the file type tag and the others.
  \<open>file_part\<close> is the multipart part of a file parameter whose file opens.
  \<open>build_request\<close> is the request for a given JSON text of the other parameters: with a
  file parameter, a multipart body of one file part per file parameter, then the field
  \<open>json\<close>, then the closing boundary, under the multipart content type; without one, the
  URL-encoded form of the single field \<open>json\<close>, under the form content type.
\<close>

definition file_parameters :: "ParameterDefinition list \<Rightarrow> ParameterDefinition list" where
  "file_parameters ps = filter (\<lambda>p. Type p = FileParameterDefinition) ps"

definition string_parameters :: "ParameterDefinition list \<Rightarrow> ParameterDefinition list" where
  "string_parameters ps = filter (\<lambda>p. Type p \<noteq> FileParameterDefinition) ps"

definition file_part :: "(string \<Rightarrow> error + string) \<Rightarrow> ParameterDefinition \<Rightarrow> chunk" where
  "file_part fs p =
     FormFile (Filepath p) (filepath_Base (Filepath p))
       (case fs (Filepath p) of Inl err \<Rightarrow> [] | Inr file \<Rightarrow> file)"

definition build_request ::
  "string \<Rightarrow> (string \<Rightarrow> error + string) \<Rightarrow> string \<Rightarrow> ParameterDefinition list \<Rightarrow> string \<Rightarrow>
   core_request" where
  "build_request boundary fs jobName parameters js =
     (if file_parameters parameters \<noteq> [] then
        \<lparr>req_method = ''POST'', req_api = ParseJobPath jobName @ ''/build'',
         req_headers = [ContentType \<mapsto> ''multipart/form-data; boundary='' @ boundary],
         req_payload = Some (MultipartBuffer
           (map (file_part fs) (file_parameters parameters) @
            [FormField ''json'' (''{\"parameter\": '' @ js @ ''}''), ClosingBoundary]))\<rparr>
      else
        \<lparr>req_method = ''POST'', req_api = ParseJobPath jobName @ ''/build'',
         req_headers = [ContentType \<mapsto> ''application/x-www-form-urlencoded''],
         req_payload = Some (StringReader
           (''json='' @ QueryEscape (''{\"parameter\": '' @ js @ ''}'')))\<rparr>)"

text \<open>
  \<open>object_text\<close> is the JSON object of one parameter definition, written out;
  a parameter is \<open>encodable\<close> when its default value is one the encoder accepts.
\<close>

definition any_text :: "any_value \<Rightarrow> string" where
  "any_text v = (case v of AnyNil \<Rightarrow> ''null'' | AnyJSON t \<Rightarrow> t | AnyUnsupported \<Rightarrow> [])"

definition object_text :: "(string \<Rightarrow> string) \<Rightarrow> ParameterDefinition \<Rightarrow> string" where
  "object_text quote p =
     ''{\"Description\":'' @ quote (Description p) @
     '',\"name\":'' @ quote (Name p) @
     '',\"Type\":'' @ quote (Type p) @
     '',\"value\":'' @ quote (Value p) @
     '',\"file\":'' @ quote (Filepath p) @
     '',\"DefaultParameterValue\":{\"Description\":'' @
        quote (Description_DPV (DefaultParameterValue p)) @
        '',\"Value\":'' @ any_text (Value_DPV (DefaultParameterValue p)) @ ''}}''"

definition encodable :: "ParameterDefinition \<Rightarrow> bool" where
  "encodable p = (Value_DPV (DefaultParameterValue p) \<noteq> AnyUnsupported)"

definition sample_parameter :: "string \<Rightarrow> string \<Rightarrow> string \<Rightarrow> string \<Rightarrow> ParameterDefinition" where
  "sample_parameter name type val file =
     \<lparr>Description = [], Name = name, Type = type, Value = val, Filepath = file,
      DefaultParameterValue = \<lparr>Description_DPV = [], Value_DPV = AnyNil\<rparr>\<rparr>"

section \<open>Observing the requests\<close>

text \<open>
  To state which requests an operation issues and in which order, a collaborator is
  wrapped so that the state of the world also carries the list of the paths requested
  so far. \<open>fetch_all\<close> is the run that fetches every build of a list in order, whatever
  the fetches return; \<open>first_error\<close> is the error of the first result that has one.
\<close>

definition traced ::
  "('w \<Rightarrow> core_request \<Rightarrow> int \<Rightarrow> 'r \<times> 'w) \<Rightarrow>
   'w \<times> string list \<Rightarrow> core_request \<Rightarrow> int \<Rightarrow> 'r \<times> ('w \<times> string list)" where
  "traced f =
     (\<lambda>(w, log) req code. case f w req code of (r, w') \<Rightarrow> (r, (w', log @ [req_api req])))"

definition build_api :: "string \<Rightarrow> int \<Rightarrow> string" where
  "build_api name n =
     ParseJobPath name @
       (if n = - 1 then ''/lastBuild/api/json'' else ''/'' @ Sprint_d n @ ''/api/json'')"

fun fetch_all ::
  "('w, Build) RequestWithData_fn \<Rightarrow> string \<Rightarrow> 'w \<Rightarrow> Build list \<Rightarrow>
   (Build option \<times> error option) list" where
  "fetch_all f name w [] = []"
| "fetch_all f name w (b # bs) =
     (case GetBuild f w name (Number b) of (r, w') \<Rightarrow> r # fetch_all f name w' bs)"

definition first_error :: "('a \<times> error option) list \<Rightarrow> error option" where
  "first_error rs =
     (case dropWhile (\<lambda>r. snd r = None) rs of [] \<Rightarrow> None | r # _ \<Rightarrow> snd r)"

subsection \<open>Sample values\<close>

definition sample_build :: "int \<Rightarrow> Build" where
  "sample_build n =
     \<lparr>Number = n, URL = [], Building = False, Description_Build = [], DisplayName = [],
      Duration = 0, EstimatedDuration = 0, FullDisplayName = [], ID = [], KeepLog = False,
      QueueID = 0, Result = [], Timestamp = 0,
      PreviousBuild = \<lparr>Number = 0, URL = []\<rparr>, NextBuild = \<lparr>Number = 0, URL = []\<rparr>\<rparr>"

definition sample_job :: "int list \<Rightarrow> Job" where
  "sample_job ns =
     \<lparr>Type_Job = [], Builds = map sample_build ns, Color = [], ConcurrentBuild = False,
      Name_Job = [], NextBuildNumber = 0, URL_Job = [], Buildable = True, Property = []\<rparr>"

definition sample_plugin :: "string \<Rightarrow> InstalledPlugin" where
  "sample_plugin short =
     \<lparr>Active = True, Enabled = True, Bundled = False, Downgradable = False, Deleted = False,
      Enable = True, ShortName = short, LongName = [], Version = [], URL_Plugin = [],
      HasUpdate = False, Pinned = False, RequiredCoreVesion = [], MinimumJavaVersion = [],
      SupportDynamicLoad = [], BackVersion = [], Dependencies = []\<rparr>"

section \<open>Properties of the string functions\<close>

lemma Split_not_Nil: "Split s sep \<noteq> []"
  by (induction s) (auto split: list.splits)

lemma Join_Cons: "Join (e # es) sep = e @ concat (map (\<lambda>s. sep @ s) es)"
  by (cases es) simp_all

lemma Join_Split: "Join (Split s sep) [sep] = s"
proof (induction s)
  case Nil
  show ?case by simp
next
  case (Cons c cs)
  obtain seg segs where segs: "Split cs sep = seg # segs"
    using Split_not_Nil [of cs sep] by (cases "Split cs sep") auto
  show ?case
  proof (cases "c = sep")
    case True
    with Cons segs show ?thesis by (simp add: Join_Cons)
  next
    case False
    with Cons segs show ?thesis by (simp add: Join_Cons)
  qed
qed

lemma Split_no_sep: "seg \<in> set (Split s sep) \<Longrightarrow> sep \<notin> set seg"
proof (induction s arbitrary: seg)
  case Nil
  then show ?case by simp
next
  case (Cons c cs)
  obtain y ys where ys: "Split cs sep = y # ys"
    using Split_not_Nil [of cs sep] by (cases "Split cs sep") auto
  show ?case
  proof (cases "c = sep")
    case True
    with Cons.prems have "seg = [] \<or> seg \<in> set (Split cs sep)" by simp
    with Cons.IH show ?thesis by auto
  next
    case False
    with Cons.prems ys have "seg = c # y \<or> seg \<in> set ys" by simp
    moreover have "sep \<notin> set y" using Cons.IH [of y] ys by simp
    moreover have "seg \<in> set ys \<Longrightarrow> sep \<notin> set seg" using Cons.IH [of seg] ys by simp
    ultimately show ?thesis using False by auto
  qed
qed

lemma of_char_to_lower:
  "(of_char (to_lower c) :: nat) =
     (if 65 \<le> (of_char c :: nat) \<and> (of_char c :: nat) \<le> 90 then of_char c + 32 else of_char c)"
  by (simp add: to_lower_def)

lemma to_lower_eq_iff:
  assumes "97 \<le> (of_char l :: nat)" and "(of_char l :: nat) \<le> 122"
    and "(of_char u :: nat) + 32 = of_char l"
  shows "to_lower c = l \<longleftrightarrow> c = l \<or> c = u"
proof -
  have "to_lower c = l \<longleftrightarrow> (of_char (to_lower c) :: nat) = of_char l"
    by simp
  also have "\<dots> \<longleftrightarrow> (of_char c :: nat) = of_char l \<or> (of_char c :: nat) = of_char u"
  proof -
    define n m k where "n = (of_char c :: nat)" and "m = (of_char l :: nat)"
      and "k = (of_char u :: nat)"
    have "97 \<le> m" "m \<le> 122" "k + 32 = m"
      using assms by (simp_all only: m_def k_def)
    then have "(if 65 \<le> n \<and> n \<le> 90 then n + 32 else n) = m \<longleftrightarrow> n = m \<or> n = k"
      by (auto split: if_splits)
    then show ?thesis
      by (simp only: of_char_to_lower n_def m_def k_def)
  qed
  also have "\<dots> \<longleftrightarrow> c = l \<or> c = u"
    by simp
  finally show ?thesis .
qed

lemma to_lower_true:
  "to_lower c = CHR ''t'' \<longleftrightarrow> c = CHR ''t'' \<or> c = CHR ''T''"
  "to_lower c = CHR ''r'' \<longleftrightarrow> c = CHR ''r'' \<or> c = CHR ''R''"
  "to_lower c = CHR ''u'' \<longleftrightarrow> c = CHR ''u'' \<or> c = CHR ''U''"
  "to_lower c = CHR ''e'' \<longleftrightarrow> c = CHR ''e'' \<or> c = CHR ''E''"
  by (rule to_lower_eq_iff; simp)+

lemma ToLower_true: "ToLower v = ''true'' \<longleftrightarrow> matches_true v"
proof (cases v)
  case Nil
  then show ?thesis by (simp add: ToLower_def matches_true_def)
next
  case (Cons a v1)
  then show ?thesis
    by (auto simp: ToLower_def matches_true_def to_lower_true split: list.splits)
qed

subsection \<open>Parsing integers\<close>

lemma decimal_from_ge: "n \<le> decimal_from n s"
  unfolding decimal_from_def
proof (induction s arbitrary: n)
  case Nil show ?case by simp
next
  case (Cons c cs)
  have "n \<le> n * 10 + (of_char c - 48)" by simp
  also have "\<dots> \<le> foldl (\<lambda>v c. v * 10 + (of_char c - 48)) (n * 10 + (of_char c - 48)) cs"
    by (rule Cons.IH)
  finally show ?case by simp
qed

lemma decimal_from_Cons: "decimal_from n (c # cs) = decimal_from (n * 10 + (of_char c - 48)) cs"
  by (simp add: decimal_from_def)

lemma ParseUint_loop_other:
  "\<not> is_digit c \<Longrightarrow> ParseUint_loop n (c # cs) = (0, Some ErrSyntax)"
  by (auto simp: is_digit_def)

lemma ParseUint_loop_big:
  "is_digit c \<Longrightarrow> n \<ge> maxUint64 div 10 + 1 \<Longrightarrow>
   ParseUint_loop n (c # cs) = (maxUint64, Some ErrRange)"
  by (simp add: is_digit_def)

lemma ParseUint_loop_digit:
  assumes "is_digit c" and "\<not> n \<ge> maxUint64 div 10 + 1"
  shows "ParseUint_loop n (c # cs) =
     (if n * 10 + (of_char c - 48) > maxUint64 then (maxUint64, Some ErrRange)
      else ParseUint_loop (n * 10 + (of_char c - 48)) cs)"
proof -
  define d where "d = (of_char c :: nat) - 48"
  have dig: "48 \<le> (of_char c :: nat) \<and> (of_char c :: nat) \<le> 57"
    using assms(1) by (simp add: is_digit_def)
  have d: "d \<le> 9" using dig by (auto simp: d_def)
  have n10: "n * 10 < 2 ^ 64" using assms(2) by (simp add: maxUint64_def)
  then have n': "(n * 10) mod 2 ^ 64 = n * 10" by simp
  have unfold: "ParseUint_loop n (c # cs) =
     (if (n * 10 + d) mod 2 ^ 64 < n * 10 \<or> (n * 10 + d) mod 2 ^ 64 > maxUint64
      then (maxUint64, Some ErrRange) else ParseUint_loop ((n * 10 + d) mod 2 ^ 64) cs)"
    by (simp only: ParseUint_loop.simps(2) dig assms(2) simp_thms if_True if_False Let_def n'
        d_def [symmetric])
  show ?thesis
  proof (cases "n * 10 + d > maxUint64")
    case True
    then have ge: "n * 10 + d \<ge> 2 ^ 64" by (simp add: maxUint64_def)
    have lt: "n * 10 + d - 2 ^ 64 < 2 ^ 64" using n10 d by simp
    have "(n * 10 + d) mod 2 ^ 64 = (n * 10 + d - 2 ^ 64) mod 2 ^ 64"
      using ge by (simp add: le_mod_geq)
    also have "\<dots> = n * 10 + d - 2 ^ 64" using lt by simp
    finally have "(n * 10 + d) mod 2 ^ 64 < n * 10" using d ge by simp
    with True show ?thesis unfolding unfold d_def [symmetric] by simp
  next
    case False
    then have m: "(n * 10 + d) mod 2 ^ 64 = n * 10 + d" by (simp add: maxUint64_def)
    with False show ?thesis unfolding unfold d_def [symmetric] by simp
  qed
qed

lemma ParseUint_loop_eq:
  "n \<le> maxUint64 \<Longrightarrow>
   ParseUint_loop n s =
     (if decimal_from n (takeWhile is_digit s) > maxUint64 then (maxUint64, Some ErrRange)
      else if takeWhile is_digit s \<noteq> s then (0, Some ErrSyntax)
      else (decimal_from n s, None))"
proof (induction s arbitrary: n)
  case Nil
  then show ?case by (simp add: decimal_from_def)
next
  case (Cons c cs)
  show ?case
  proof (cases "is_digit c")
    case False
    with Cons.prems show ?thesis
      by (simp add: ParseUint_loop_other decimal_from_def del: ParseUint_loop.simps)
  next
    case True
    define d where "d = (of_char c :: nat) - 48"
    have tw: "takeWhile is_digit (c # cs) = c # takeWhile is_digit cs" using True by simp
    have ge: "n * 10 + d \<le> decimal_from n (takeWhile is_digit (c # cs))"
      unfolding tw decimal_from_Cons d_def by (rule decimal_from_ge)
    show ?thesis
    proof (cases "n \<ge> maxUint64 div 10 + 1")
      case big: True
      then have "n * 10 + d > maxUint64" by (simp add: maxUint64_def)
      with ge have "decimal_from n (takeWhile is_digit (c # cs)) > maxUint64" by linarith
      with big True show ?thesis
        by (simp add: ParseUint_loop_big del: ParseUint_loop.simps)
    next
      case small: False
      show ?thesis
      proof (cases "n * 10 + d > maxUint64")
        case over: True
        with ge have "decimal_from n (takeWhile is_digit (c # cs)) > maxUint64" by linarith
        with over show ?thesis
          unfolding ParseUint_loop_digit [OF True small] d_def [symmetric] by simp
      next
        case False
        then have le: "n * 10 + d \<le> maxUint64" by simp
        have step: "ParseUint_loop n (c # cs) = ParseUint_loop (n * 10 + d) cs"
          unfolding ParseUint_loop_digit [OF True small] d_def [symmetric] using False by simp
        show ?thesis
          unfolding step Cons.IH [OF le] tw decimal_from_Cons d_def [symmetric]
          using True by simp
      qed
    qed
  qed
qed

lemma ParseUint_eq:
  "ParseUint s =
     (if s = [] then (0, Some ErrSyntax)
      else if decimal (takeWhile is_digit s) > maxUint64 then (maxUint64, Some ErrRange)
      else if takeWhile is_digit s \<noteq> s then (0, Some ErrSyntax)
      else (decimal s, None))"
  using ParseUint_loop_eq [of 0 s] by (simp add: ParseUint_def decimal_def)

lemma int64_id: "- (2 ^ 63) \<le> x \<Longrightarrow> x < 2 ^ 63 \<Longrightarrow> int64 x = x"
  by (simp add: int64_def)

lemma ParseInt_value: "fst (ParseInt s) = text_size s"
proof (cases "s = []")
  case True
  then show ?thesis by (simp add: ParseInt_def text_size_def)
next
  case False
  define neg where "neg = (hd s = CHR ''-'')"
  define body where "body = (if hd s = CHR ''+'' \<or> hd s = CHR ''-'' then tl s else s)"
  define ds where "ds = takeWhile is_digit body"
  have neg: "(s \<noteq> [] \<and> hd s = CHR ''-'') = neg"
    using False by (simp add: neg_def)
  have body: "(if s \<noteq> [] \<and> (hd s = CHR ''+'' \<or> hd s = CHR ''-'') then tl s else s) = body"
    using False by (simp add: body_def)
  have ts: "text_size s =
      (if body = [] \<or> (ds \<noteq> body \<and> decimal ds < 2 ^ 64) then 0
       else if neg then max (- (2 ^ 63)) (- int (decimal ds))
       else min (2 ^ 63 - 1) (int (decimal ds)))"
    by (simp only: text_size_def Let_def neg body ds_def)
  have pi: "ParseInt s =
      (case ParseUint body of
         (un, err) \<Rightarrow>
           if err \<noteq> None \<and> err \<noteq> Some ErrRange then (0, err)
           else if \<not> neg \<and> un \<ge> 2 ^ 63 then (2 ^ 63 - 1, Some ErrRange)
           else if neg \<and> un > 2 ^ 63 then (- (2 ^ 63), Some ErrRange)
           else (let n = int64 (int un) in ((if neg then int64 (- n) else n), None)))"
    using False by (simp only: ParseInt_def neg_def body_def Let_def if_False)
  consider (empty) "body = []"
    | (overflow) "body \<noteq> []" "decimal ds > maxUint64"
    | (malformed) "body \<noteq> []" "\<not> decimal ds > maxUint64" "ds \<noteq> body"
    | (ok) "body \<noteq> []" "\<not> decimal ds > maxUint64" "ds = body"
    by blast
  then show ?thesis
  proof cases
    case empty
    then show ?thesis by (simp add: ts pi ParseUint_eq)
  next
    case overflow
    then have "ParseUint body = (maxUint64, Some ErrRange)"
      by (simp add: ParseUint_eq ds_def)
    moreover have "\<not> decimal ds < 2 ^ 64" using overflow by (simp add: maxUint64_def)
    moreover have "int (decimal ds) \<ge> 2 ^ 64" using overflow by (simp add: maxUint64_def)
    ultimately show ?thesis using overflow by (simp add: ts pi maxUint64_def)
  next
    case malformed
    then have "ParseUint body = (0, Some ErrSyntax)"
      by (simp add: ParseUint_eq ds_def)
    moreover have "decimal ds < 2 ^ 64" using malformed by (simp add: maxUint64_def)
    ultimately show ?thesis using malformed by (simp add: ts pi)
  next
    case ok
    then have pu: "ParseUint body = (decimal body, None)"
      by (simp add: ParseUint_eq ds_def)
    have ts': "text_size s =
       (if neg then max (- (2 ^ 63)) (- int (decimal body)) else min (2 ^ 63 - 1) (int (decimal body)))"
      using ok by (simp add: ts)
    show ?thesis
    proof (cases neg)
      case True
      show ?thesis
      proof (cases "decimal body > 2 ^ 63")
        case True
        with \<open>neg\<close> show ?thesis by (simp add: ts' pi pu)
      next
        case False
        show ?thesis
        proof (cases "decimal body = 2 ^ 63")
          case True
          with \<open>neg\<close> show ?thesis by (simp add: ts' pi pu int64_def)
        next
          case ne: False
          with False have lt: "int (decimal body) < 2 ^ 63" by simp
          then have "int64 (int (decimal body)) = int (decimal body)" by (simp add: int64_id)
          moreover have "int64 (- int (decimal body)) = - int (decimal body)"
            using lt by (simp add: int64_id)
          ultimately show ?thesis using \<open>neg\<close> False lt by (simp add: ts' pi pu)
        qed
      qed
    next
      case False
      show ?thesis
      proof (cases "decimal body \<ge> 2 ^ 63")
        case True
        with \<open>\<not> neg\<close> show ?thesis by (simp add: ts' pi pu)
      next
        case lt: False
        then have "int (decimal body) < 2 ^ 63" by simp
        then have "int64 (int (decimal body)) = int (decimal body)" by (simp add: int64_id)
        with \<open>\<not> neg\<close> lt show ?thesis by (simp add: ts' pi pu)
      qed
    qed
  qed
qed

section \<open>Properties of the path resolver\<close>

lemma fold_prefix_acc:
  "foldl (\<lambda>path item. path @ pre @ item) acc items =
   acc @ concat (map (\<lambda>item. pre @ item) items)"
  by (induction items arbitrary: acc) simp_all

lemma ParseJobPath_passthrough:
  "name = [] \<or> HasPrefix name ''/job/'' \<or> HasPrefix name ''job/'' \<Longrightarrow> ParseJobPath name = name"
  by (auto simp: ParseJobPath_def)

lemma ParseJobPath_segments:
  "\<not> (name = [] \<or> HasPrefix name ''/job/'' \<or> HasPrefix name ''job/'') \<Longrightarrow>
   ParseJobPath name = concat (map (\<lambda>item. ''/job/'' @ item) (Split name CHR '' ''))"
  using fold_prefix_acc [of "''/job/''" "[]" "Split name CHR '' ''"]
  by (simp add: ParseJobPath_def)

lemma HasPrefix_append: "HasPrefix (pre @ s) pre"
  by (simp add: HasPrefix_def)

lemma ParseJobPath_resolved:
  "ParseJobPath name = [] \<or> HasPrefix (ParseJobPath name) ''/job/'' \<or>
   HasPrefix (ParseJobPath name) ''job/''"
proof (cases "name = [] \<or> HasPrefix name ''/job/'' \<or> HasPrefix name ''job/''")
  case True
  then show ?thesis by (simp add: ParseJobPath_passthrough)
next
  case False
  obtain seg segs where "Split name CHR '' '' = seg # segs"
    using Split_not_Nil [of name "CHR '' ''"] by (cases "Split name CHR '' ''") auto
  with False have "ParseJobPath name = ''/job/'' @ (seg @ concat (map (\<lambda>item. ''/job/'' @ item) segs))"
    by (simp add: ParseJobPath_segments)
  then have "HasPrefix (ParseJobPath name) ''/job/''"
    using HasPrefix_append [of "''/job/''"] by simp
  then show ?thesis by simp
qed

text \<open>
  Claim C3. \<open>ParseJobPath\<close> returns its input unchanged when the input is empty or begins
  with \<open>/job/\<close> or \<open>job/\<close>. Otherwise the input is split on single spaces (the segments
  joined by one space give the input back, and no segment holds a space) and the result is
  the concatenation of \<open>/job/<segment>\<close> over the segments in order, with nothing between
  them. So the empty name maps to the empty path, \<open>/job/a\<close> to itself and \<open>a b\<close> to
  \<open>/job/a/job/b\<close>.
\<close>

theorem ParseJobPath_spec:
  "(name = [] \<or> HasPrefix name ''/job/'' \<or> HasPrefix name ''job/'' \<longrightarrow> ParseJobPath name = name) \<and>
   (\<not> (name = [] \<or> HasPrefix name ''/job/'' \<or> HasPrefix name ''job/'') \<longrightarrow>
      Join (Split name CHR '' '') '' '' = name \<and>
      (\<forall>seg \<in> set (Split name CHR '' ''). CHR '' '' \<notin> set seg) \<and>
      ParseJobPath name = concat (map (\<lambda>seg. ''/job/'' @ seg) (Split name CHR '' ''))) \<and>
   ParseJobPath [] = [] \<and>
   ParseJobPath ''/job/a'' = ''/job/a'' \<and>
   ParseJobPath ''a b'' = ''/job/a/job/b''"
proof -
  have pass: "name = [] \<or> HasPrefix name ''/job/'' \<or> HasPrefix name ''job/'' \<longrightarrow> ParseJobPath name = name"
    using ParseJobPath_passthrough by blast
  have segs: "\<not> (name = [] \<or> HasPrefix name ''/job/'' \<or> HasPrefix name ''job/'') \<longrightarrow>
      Join (Split name CHR '' '') '' '' = name \<and>
      (\<forall>seg \<in> set (Split name CHR '' ''). CHR '' '' \<notin> set seg) \<and>
      ParseJobPath name = concat (map (\<lambda>seg. ''/job/'' @ seg) (Split name CHR '' ''))"
    using Join_Split [of name "CHR '' ''"] Split_no_sep [of _ name "CHR '' ''"]
      ParseJobPath_segments [of name] by blast
  have e1: "ParseJobPath [] = []"
    by (simp add: ParseJobPath_def)
  have e2: "ParseJobPath ''/job/a'' = ''/job/a''"
    by (simp add: ParseJobPath_def HasPrefix_def)
  have e3: "ParseJobPath ''a b'' = ''/job/a/job/b''"
    by (simp add: ParseJobPath_def HasPrefix_def)
  from pass segs e1 e2 e3 show ?thesis by blast
qed

theorem ParseJobPath_spec_witness:
  "\<not> (''x y z'' = [] \<or> HasPrefix ''x y z'' ''/job/'' \<or> HasPrefix ''x y z'' ''job/'') \<and>
   Split ''x y z'' CHR '' '' = [''x'', ''y'', ''z''] \<and>
   Join (Split ''x y z'' CHR '' '') '' '' = ''x y z'' \<and>
   ParseJobPath ''x y z'' = ''/job/x/job/y/job/z'' \<and>
   HasPrefix ''job/x'' ''job/'' \<and> ParseJobPath ''job/x'' = ''job/x''"
  using ParseJobPath_spec [of "''x y z''"] ParseJobPath_spec [of "''job/x''"]
  by (simp add: HasPrefix_def)

text \<open>
  Claim C8. \<open>ParseJobPath\<close> is idempotent: resolving a resolved path changes nothing. In
  particular a path that is empty or begins with \<open>/job/\<close> or \<open>job/\<close> is returned
  unchanged.
\<close>

theorem ParseJobPath_idempotent:
  "ParseJobPath (ParseJobPath name) = ParseJobPath name \<and>
   ParseJobPath [] = [] \<and>
   ParseJobPath (''/job/'' @ rest) = ''/job/'' @ rest \<and>
   ParseJobPath (''job/'' @ rest) = ''job/'' @ rest"
proof -
  have "ParseJobPath (ParseJobPath name) = ParseJobPath name"
    using ParseJobPath_resolved [of name] by (rule ParseJobPath_passthrough)
  moreover have "ParseJobPath [] = []"
    by (simp add: ParseJobPath_passthrough)
  moreover have "ParseJobPath (''/job/'' @ rest) = ''/job/'' @ rest"
    using HasPrefix_append [of "''/job/''" rest] by (simp add: ParseJobPath_passthrough)
  moreover have "ParseJobPath (''job/'' @ rest) = ''job/'' @ rest"
    using HasPrefix_append [of "''job/''" rest] by (simp add: ParseJobPath_passthrough)
  ultimately show ?thesis by blast
qed

theorem ParseJobPath_idempotent_witness:
  "ParseJobPath ''a b'' = ''/job/a/job/b'' \<and>
   ParseJobPath (ParseJobPath ''a b'') = ''/job/a/job/b''"
  using ParseJobPath_idempotent [of "''a b''" "[]"]
  by (simp add: ParseJobPath_def HasPrefix_def)

text \<open>
  Claim C9. \<open>ParsePipelinePath\<close> returns the empty string when it is given no segment;
  otherwise it returns the segments joined by \<open>/pipelines/\<close>, with \<open>pipelines/\<close> put in
  front once: the first segment after \<open>pipelines/\<close>, every further segment after
  \<open>/pipelines/\<close>. The segments \<open>a\<close>, \<open>b\<close> give \<open>pipelines/a/pipelines/b\<close>.
\<close>

theorem ParsePipelinePath_spec:
  "ParsePipelinePath [] = [] \<and>
   ParsePipelinePath (p # ps) = ''pipelines/'' @ Join (p # ps) ''/pipelines/'' \<and>
   ParsePipelinePath (p # ps) = ''pipelines/'' @ p @ concat (map (\<lambda>s. ''/pipelines/'' @ s) ps) \<and>
   ParsePipelinePath [''a'', ''b''] = ''pipelines/a/pipelines/b''"
proof -
  have "Join (p # ps) ''/pipelines/'' = p @ concat (map (\<lambda>s. ''/pipelines/'' @ s) ps)"
    by (rule Join_Cons)
  moreover have "Join [''a'', ''b''] ''/pipelines/'' = ''a/pipelines/b''"
    by simp
  ultimately show ?thesis by (simp add: ParsePipelinePath_def)
qed

theorem ParsePipelinePath_spec_witness:
  "ParsePipelinePath [''x''] = ''pipelines/x'' \<and>
   ParsePipelinePath [''x'', ''y'', ''z''] = ''pipelines/x/pipelines/y/pipelines/z''"
  using ParsePipelinePath_spec [of "''x''" "[]"]
    ParsePipelinePath_spec [of "''x''" "[''y'', ''z'']"]
  by simp

section \<open>Properties of the job operations\<close>

lemma Delete_response:
  assumes "Request w (Delete_request jobName) = ((code, data, None), w')"
  shows "Delete Request w jobName =
     ((if code = 200 \<or> code = 302 then None
       else Some (Errorf (''unexpected status code: '' @ Sprint_d code))), w')"
  using assms by (simp add: Delete_def)

lemma Delete_transport_failure:
  assumes "Request w (Delete_request jobName) = ((code, data, Some e), w')"
  shows "Delete Request w jobName = (Some e, w')"
  using assms by (simp add: Delete_def)

text \<open>
  Claim C6. When the server answers the deletion request (the transport reports no
  error), \<open>Delete\<close> returns no error exactly when the status is 200 or 302, and for every
  other status it returns the error \<open>unexpected status code: <code>\<close>. \<open>CreateJobInFolder\<close>
  returns no error whenever the status it receives is 302, whatever error the
  collaborator reported for that status.
\<close>

theorem Delete_status:
  "(Request w (Delete_request jobName) = ((code, data, None), w') \<longrightarrow>
      (fst (Delete Request w jobName) = None \<longleftrightarrow> code = 200 \<or> code = 302) \<and>
      (code \<noteq> 200 \<and> code \<noteq> 302 \<longrightarrow>
         fst (Delete Request w jobName) =
           Some (Errorf (''unexpected status code: '' @ Sprint_d code)))) \<and>
   (fst (fst (RequestWithoutData w (CreateJobInFolder_request quote jobPayload path) 200)) = 302 \<longrightarrow>
      fst (CreateJobInFolder quote RequestWithoutData w jobPayload path) = None)"
  by (auto simp: Delete_response CreateJobInFolder_def split: prod.splits)

theorem Delete_status_witness:
  "fst (Delete (\<lambda>w req. ((200, [], None), w)) () ''a'') = None \<and>
   fst (Delete (\<lambda>w req. ((302, [], None), w)) () ''a'') = None \<and>
   fst (Delete (\<lambda>w req. ((404, ''gone'', None), w)) () ''a'') =
     Some (Errorf ''unexpected status code: 404'') \<and>
   fst (CreateJobInFolder (\<lambda>s. s)
         (\<lambda>w req code. ((302, Some (CollaboratorError ''unexpected status code: 302'')), w)) ()
         \<lparr>Name_Payload = ''n'', Mode = ''m'', From = ''f''\<rparr> ''a'') = None"
  using Delete_status [of "\<lambda>w req. ((200, [], None), w)" "()" "''a''" 200 "[]" "()"
      "\<lambda>w req code. ((302, Some (CollaboratorError ''unexpected status code: 302'')), w)"
      "\<lambda>s. s" "\<lparr>Name_Payload = ''n'', Mode = ''m'', From = ''f''\<rparr>" "''a''"]
    Delete_status [of "\<lambda>w req. ((302, [], None), w)" "()" "''a''" 302 "[]" "()"]
    Delete_status [of "\<lambda>w req. ((404, ''gone'', None), w)" "()" "''a''" 404 "''gone''" "()"]
  by (simp add: Sprint_d_def FormatUint.simps)

lemma GetBuild_traced:
  "GetBuild (traced f) (w, log) name n =
     (fst (GetBuild f w name n), (snd (GetBuild f w name n), log @ [build_api name n]))"
  by (simp add: GetBuild_def traced_def build_api_def Let_def split: prod.splits)

lemma GetJob_traced:
  "GetJob (traced f) (w, log) name =
     (fst (GetJob f w name), (snd (GetJob f w name), log @ [ParseJobPath name @ ''/api/json'']))"
  by (simp add: GetJob_def traced_def Let_def split: prod.splits)

lemma GetHistory_loop_traced:
  "fst (GetHistory_loop (traced f) name (w, log) acc bs) =
     (acc @ map fst (takeWhile (\<lambda>r. snd r = None) (fetch_all f name w bs)),
      first_error (fetch_all f name w bs)) \<and>
   snd (snd (GetHistory_loop (traced f) name (w, log) acc bs)) =
     log @ take (Suc (length (takeWhile (\<lambda>r. snd r = None) (fetch_all f name w bs))))
             (map (\<lambda>b. build_api name (Number b)) bs)"
proof (induction bs arbitrary: w log acc)
  case Nil
  show ?case by (simp add: first_error_def)
next
  case (Cons b bs)
  obtain build err w' where g: "GetBuild f w name (Number b) = ((build, err), w')"
    by (metis surj_pair)
  show ?case
  proof (cases "err = None")
    case True
    with g Cons.IH [of w' "log @ [build_api name (Number b)]" "acc @ [build]"]
    show ?thesis by (simp add: GetBuild_traced first_error_def)
  next
    case False
    with g show ?thesis by (auto simp: GetBuild_traced first_error_def)
  qed
qed

lemma GetHistory_job_failure:
  assumes "GetJob RJ w name = ((j, Some e), w1)"
  shows "GetHistory RJ RB w name = (Returns ([], Some e), w1)"
  using assms by (simp add: GetHistory_def)

lemma Number_sample_build: "Number (sample_build n) = n"
  by (simp add: sample_build_def)

text \<open>
  Claim C5. Once the job is fetched, \<open>GetHistory\<close> fetches the builds one by one in the
  order of the job's build list. Against the run that would fetch every build in that
  order, it returns the records of the fetches before the first failing one, together
  with the error of that fetch (no error when none fails), and the requests it issues
  after the one for the job are those for the builds up to and including the failing
  one, in order: nothing is requested after a failure.
\<close>

theorem GetHistory_stops_at_first_failure:
  assumes "GetJob RJ w name = ((Some j, None), w1)"
  shows "fst (GetHistory (traced RJ) (traced RB) (w, []) name) =
           Returns (map fst (takeWhile (\<lambda>r. snd r = None) (fetch_all RB name w1 (Builds j))),
                    first_error (fetch_all RB name w1 (Builds j))) \<and>
         snd (snd (GetHistory (traced RJ) (traced RB) (w, []) name)) =
           (ParseJobPath name @ ''/api/json'') #
           take (Suc (length (takeWhile (\<lambda>r. snd r = None) (fetch_all RB name w1 (Builds j)))))
             (map (\<lambda>b. build_api name (Number b)) (Builds j))"
  using assms
    GetHistory_loop_traced [of RB name w1 "[ParseJobPath name @ ''/api/json'']" "[]" "Builds j"]
  by (auto simp: GetHistory_def GetJob_traced split: prod.splits)

theorem GetHistory_stops_at_first_failure_witness:
  "GetJob (\<lambda>w req code. ((Some (sample_job [1, 2, 3]), None), w)) (0::nat) ''a'' =
     ((Some (sample_job [1, 2, 3]), None), 0) \<and>
   fst (GetHistory (traced (\<lambda>w req code. ((Some (sample_job [1, 2, 3]), None), w)))
     (traced (\<lambda>w req code.
        if w = 1 then ((None, Some (CollaboratorError ''no such build'')), Suc w)
        else ((Some (sample_build (int w + 1)), None), Suc w)))
     (0::nat, []) ''a'') =
     Returns ([Some (sample_build 1)], Some (CollaboratorError ''no such build'')) \<and>
   snd (snd (GetHistory (traced (\<lambda>w req code. ((Some (sample_job [1, 2, 3]), None), w)))
     (traced (\<lambda>w req code.
        if w = 1 then ((None, Some (CollaboratorError ''no such build'')), Suc w)
        else ((Some (sample_build (int w + 1)), None), Suc w)))
     (0::nat, []) ''a'')) =
     [''/job/a/api/json'', ''/job/a/1/api/json'', ''/job/a/2/api/json''] \<and>
   fst (GetHistory (traced (\<lambda>w req code. ((Some (sample_job [1, 2, 3]), None), w)))
     (traced (\<lambda>w req code. ((Some (sample_build (int w + 1)), None), Suc w)))
     (0::nat, []) ''a'') =
     Returns ([Some (sample_build 1), Some (sample_build 2), Some (sample_build 3)], None) \<and>
   snd (snd (GetHistory (traced (\<lambda>w req code. ((Some (sample_job [1, 2, 3]), None), w)))
     (traced (\<lambda>w req code. ((Some (sample_build (int w + 1)), None), Suc w)))
     (0::nat, []) ''a'')) =
     [''/job/a/api/json'', ''/job/a/1/api/json'', ''/job/a/2/api/json'', ''/job/a/3/api/json'']"
proof -
  have job: "GetJob (\<lambda>w req code. ((Some (sample_job [1, 2, 3]), None), w)) (0::nat) ''a'' =
     ((Some (sample_job [1, 2, 3]), None), 0)"
    by (simp add: GetJob_def)
  show ?thesis
    using job
      GetHistory_stops_at_first_failure [OF job,
        of "\<lambda>w req code.
              if w = 1 then ((None, Some (CollaboratorError ''no such build'')), Suc w)
              else ((Some (sample_build (int w + 1)), None), Suc w)"]
      GetHistory_stops_at_first_failure [OF job,
        of "\<lambda>w req code. ((Some (sample_build (int w + 1)), None), Suc w)"]
    by (simp add: GetBuild_def build_api_def first_error_def ParseJobPath_def HasPrefix_def
        Sprint_d_def FormatUint.simps sample_job_def Number_sample_build Let_def)
qed

lemma Log_transport_ok:
  assumes "NewRequest ''GET'' (Log_api core_URL jobName history start) = Inr req"
    and "AuthHandle w req = ((None, req'), w1)"
    and "Do w1 req' = (Inr response, w2)"
    and "Body response = (data, err)"
  shows "Log core_URL NewRequest AuthHandle Do w jobName history start =
     (((if StatusCode response = 200
       then \<lparr>HasMore = matches_true (header_value response ''X-More-Data''),
             NextStart = text_size (header_value response ''X-Text-Size''),
             Text = data\<rparr>
       else \<lparr>HasMore = False, NextStart = 0, Text = []\<rparr>), err), w2)"
proof (cases "Header response")
  case None
  have "matches_true [] = False" by (simp add: matches_true_def)
  moreover have "text_size [] = 0" by (simp add: text_size_def)
  ultimately show ?thesis
    using assms None by (simp add: Log_def header_value_def)
next
  case (Some h)
  then show ?thesis
    using assms
    by (simp add: Log_def header_value_def ToLower_true ParseInt_value)
qed

text \<open>
  Claim C4, as amended. When the request is built and signed, the round trip succeeds
  and the body is read without error: on status 200 the log has the body as its text,
  \<open>HasMore\<close> is true exactly when the header \<open>X-More-Data\<close> is the word \<open>true\<close> in any mix
  of cases, and \<open>NextStart\<close> is the header \<open>X-Text-Size\<close> read as a signed decimal number
  and cut to the signed 64-bit range, zero when the header is missing, empty or malformed
  before its digits reach \<open>2 ^ 64\<close>; on any other status the log is the default one. No
  error is returned in either case.
\<close>

theorem Log_response:
  assumes "NewRequest ''GET'' (Log_api core_URL jobName history start) = Inr req"
    and "AuthHandle w req = ((None, req'), w1)"
    and "Do w1 req' = (Inr response, w2)"
    and "Body response = (data, None)"
  shows "Log core_URL NewRequest AuthHandle Do w jobName history start =
     (((if StatusCode response = 200
       then \<lparr>HasMore = matches_true (header_value response ''X-More-Data''),
             NextStart = text_size (header_value response ''X-Text-Size''),
             Text = data\<rparr>
       else \<lparr>HasMore = False, NextStart = 0, Text = []\<rparr>), None), w2)"
  using assms by (rule Log_transport_ok)

theorem Log_response_witness:
  "Log ''http://ci'' (\<lambda>m u. Inr u) (\<lambda>w r. ((None, r), w))
     (\<lambda>w r. (Inr \<lparr>StatusCode = 200,
                  Header = Some [''X-More-Data'' \<mapsto> [''True''], ''X-Text-Size'' \<mapsto> [''42'']],
                  Body = (''building'', None)\<rparr>, w))
     () ''a'' 7 0 =
     ((\<lparr>HasMore = True, NextStart = 42, Text = ''building''\<rparr>, None), ()) \<and>
   Log ''http://ci'' (\<lambda>m u. Inr u) (\<lambda>w r. ((None, r), w))
     (\<lambda>w r. (Inr \<lparr>StatusCode = 200, Header = Some Map.empty, Body = (''building'', None)\<rparr>, w))
     () ''a'' 7 0 =
     ((\<lparr>HasMore = False, NextStart = 0, Text = ''building''\<rparr>, None), ()) \<and>
   Log ''http://ci'' (\<lambda>m u. Inr u) (\<lambda>w r. ((None, r), w))
     (\<lambda>w r. (Inr \<lparr>StatusCode = 404,
                  Header = Some [''X-More-Data'' \<mapsto> [''True''], ''X-Text-Size'' \<mapsto> [''42'']],
                  Body = (''not found'', None)\<rparr>, w))
     () ''a'' 7 0 =
     ((\<lparr>HasMore = False, NextStart = 0, Text = []\<rparr>, None), ())"
  using
    Log_response [of "\<lambda>m u. Inr u" "''http://ci''" "''a''" 7 0
      "Log_api ''http://ci'' ''a'' 7 0" "\<lambda>w r. ((None, r), w)" "()"
      "Log_api ''http://ci'' ''a'' 7 0" "()"
      "\<lambda>w r. (Inr \<lparr>StatusCode = 200,
                  Header = Some [''X-More-Data'' \<mapsto> [''True''], ''X-Text-Size'' \<mapsto> [''42'']],
                  Body = (''building'', None)\<rparr>, w)"
      "\<lparr>StatusCode = 200,
                  Header = Some [''X-More-Data'' \<mapsto> [''True''], ''X-Text-Size'' \<mapsto> [''42'']],
                  Body = (''building'', None)\<rparr>" "()" "''building''"]
    Log_response [of "\<lambda>m u. Inr u" "''http://ci''" "''a''" 7 0
      "Log_api ''http://ci'' ''a'' 7 0" "\<lambda>w r. ((None, r), w)" "()"
      "Log_api ''http://ci'' ''a'' 7 0" "()"
      "\<lambda>w r. (Inr \<lparr>StatusCode = 200, Header = Some Map.empty, Body = (''building'', None)\<rparr>, w)"
      "\<lparr>StatusCode = 200, Header = Some Map.empty, Body = (''building'', None)\<rparr>" "()" "''building''"]
    Log_response [of "\<lambda>m u. Inr u" "''http://ci''" "''a''" 7 0
      "Log_api ''http://ci'' ''a'' 7 0" "\<lambda>w r. ((None, r), w)" "()"
      "Log_api ''http://ci'' ''a'' 7 0" "()"
      "\<lambda>w r. (Inr \<lparr>StatusCode = 404,
                  Header = Some [''X-More-Data'' \<mapsto> [''True''], ''X-Text-Size'' \<mapsto> [''42'']],
                  Body = (''not found'', None)\<rparr>, w)"
      "\<lparr>StatusCode = 404,
                  Header = Some [''X-More-Data'' \<mapsto> [''True''], ''X-Text-Size'' \<mapsto> [''42'']],
                  Body = (''not found'', None)\<rparr>" "()" "''not found''"]
  by (simp add: header_value_def Header_Get_def matches_true_def text_size_def is_digit_def
      decimal_def decimal_from_def)

text \<open>
  The claim C4 as first stated has \<open>NextStart\<close> zero whenever the header cannot be parsed.
  A header whose number is one above the largest signed 64-bit integer cannot be parsed
  (the parser reports a range error), and \<open>NextStart\<close> is that largest integer.
\<close>

theorem Log_size_out_of_range_counterexample:
  "snd (ParseInt ''9223372036854775808'') = Some ErrRange \<and>
   fst (Log ''http://ci'' (\<lambda>m u. Inr u) (\<lambda>w r. ((None, r), w))
     (\<lambda>w r. (Inr \<lparr>StatusCode = 200,
                  Header = Some [''X-Text-Size'' \<mapsto> [''9223372036854775808'']],
                  Body = (''building'', None)\<rparr>, w))
     () ''a'' 7 0) =
     (\<lparr>HasMore = False, NextStart = 9223372036854775807, Text = ''building''\<rparr>, None)"
  by (simp add: Log_def Header_Get_def ToLower_def ParseInt_def ParseUint_def maxUint64_def Let_def)

subsection \<open>Parameterized builds\<close>

lemma BuildWithParams_loop_opens:
  assumes "\<forall>p \<in> set ps. Type p = FileParameterDefinition \<longrightarrow> (\<exists>file. fs (Filepath p) = Inr file)"
  shows "BuildWithParams_loop fs ps body has sps =
     Inr (body @ map (file_part fs) (file_parameters ps),
          has \<or> file_parameters ps \<noteq> [],
          sps @ string_parameters ps)"
  using assms
proof (induction ps arbitrary: body has sps)
  case Nil
  show ?case by (simp add: file_parameters_def string_parameters_def)
next
  case (Cons p ps)
  show ?case
  proof (cases "Type p = FileParameterDefinition")
    case True
    with Cons.prems obtain content where f: "fs (Filepath p) = Inr content" by auto
    have "BuildWithParams_loop fs (p # ps) body has sps =
        BuildWithParams_loop fs ps (body @ [file_part fs p]) True sps"
      using True f by (simp add: CreateFormFile_def file_part_def)
    also have "\<dots> = Inr ((body @ [file_part fs p]) @ map (file_part fs) (file_parameters ps),
          True \<or> file_parameters ps \<noteq> [], sps @ string_parameters ps)"
      using Cons.prems by (intro Cons.IH) simp
    finally show ?thesis
      using True by (simp add: file_parameters_def string_parameters_def)
  next
    case False
    have "BuildWithParams_loop fs (p # ps) body has sps =
        BuildWithParams_loop fs ps body has (sps @ [p])"
      using False by simp
    also have "\<dots> = Inr (body @ map (file_part fs) (file_parameters ps),
          has \<or> file_parameters ps \<noteq> [], (sps @ [p]) @ string_parameters ps)"
      using Cons.prems by (intro Cons.IH) simp
    finally show ?thesis
      using False by (simp add: file_parameters_def string_parameters_def)
  qed
qed

lemma BuildWithParams_loop_fails:
  assumes "find (\<lambda>p. Type p = FileParameterDefinition \<and> isl (fs (Filepath p))) ps = Some p"
  shows "BuildWithParams_loop fs ps body has sps = Inl (projl (fs (Filepath p)))"
  using assms
proof (induction ps arbitrary: body has sps)
  case Nil
  then show ?case by simp
next
  case (Cons q ps)
  show ?case
  proof (cases "Type q = FileParameterDefinition")
    case True
    show ?thesis
    proof (cases "fs (Filepath q)")
      case (Inl e)
      with True Cons.prems show ?thesis by simp
    next
      case (Inr content)
      with True Cons.prems Cons.IH show ?thesis by (simp add: CreateFormFile_def)
    qed
  next
    case False
    with Cons.prems Cons.IH show ?thesis by simp
  qed
qed

lemma QueryEscape_json: "QueryEscape ''json'' = ''json''"
  by (simp add: QueryEscape_def escape_byte_def shouldEscape_def)

lemma Values_Encode_json: "Values_Encode [(''json'', [v])] = ''json='' @ QueryEscape v"
  by (simp add: Values_Encode_def QueryEscape_json)

lemma BuildWithParams_sends:
  assumes opens: "\<forall>p \<in> set parameters. Type p = FileParameterDefinition \<longrightarrow>
                    (\<exists>file. fs (Filepath p) = Inr file)"
    and js: "paramJSON quote (string_parameters parameters) = Inr js"
  shows "BuildWithParams quote boundary fs RequestWithoutData w jobName parameters =
     (snd (fst (RequestWithoutData w (build_request boundary fs jobName parameters js) 201)),
      snd (RequestWithoutData w (build_request boundary fs jobName parameters js) 201))"
proof -
  have loop: "BuildWithParams_loop fs parameters [] False [] =
      Inr (map (file_part fs) (file_parameters parameters),
           file_parameters parameters \<noteq> [], string_parameters parameters)"
    using BuildWithParams_loop_opens [OF opens, of "[]" False "[]"] by simp
  show ?thesis
  proof (cases "file_parameters parameters = []")
    case True
    then show ?thesis
      unfolding BuildWithParams_def loop
      by (simp add: js build_request_def Values_Encode_json ApplicationForm_def Let_def
          split: prod.splits)
  next
    case False
    then show ?thesis
      unfolding BuildWithParams_def loop
      by (simp add: js build_request_def WriteField_def Close_def FormDataContentType_def Let_def
          split: prod.splits)
  qed
qed


lemma Marshal_ParameterDefinition_encodable:
  "encodable p \<Longrightarrow> Marshal_ParameterDefinition quote p = Inr (object_text quote p)"
  by (cases "Value_DPV (DefaultParameterValue p)")
    (simp_all add: encodable_def Marshal_ParameterDefinition_def Marshal_DefaultParameterValue_def
      Marshal_any_def object_text_def any_text_def)

lemma Marshal_elements_encodable:
  "\<forall>p \<in> set ps. encodable p \<Longrightarrow>
   Marshal_elements quote ps = Inr (map (object_text quote) ps)"
  by (induction ps) (simp_all add: Marshal_ParameterDefinition_encodable)

lemma paramJSON_encodable:
  assumes "\<forall>p \<in> set ps. encodable p"
  shows "paramJSON quote ps =
     Inr (if length ps = 1 then object_text quote (hd ps)
          else ''['' @ Join (map (object_text quote) ps) '','' @ '']'')"
proof (cases "length ps = 1")
  case True
  then obtain p where ps: "ps = [p]" by (cases ps) auto
  with assms show ?thesis
    by (simp add: paramJSON_def Marshal_ParameterDefinition_encodable)
next
  case False
  with assms show ?thesis
    by (simp add: paramJSON_def Marshal_ParameterDefinitions_def Marshal_elements_encodable)
qed

lemma object_text_braces:
  "hd (object_text quote p) = CHR ''{'' \<and> last (object_text quote p) = CHR ''}''"
  by (simp add: object_text_def)

lemma string_parameters_encodable:
  "\<forall>p \<in> set parameters. Type p \<noteq> FileParameterDefinition \<longrightarrow> encodable p \<Longrightarrow>
   \<forall>p \<in> set (string_parameters parameters). encodable p"
  by (simp add: string_parameters_def)

text \<open>
  Claim C1. For every parameter list whose files open and whose other parameters can be
  encoded, \<open>BuildWithParams\<close> issues one POST request to \<open><job path>/build\<close> and returns
  what the collaborator returns for it. The JSON value sent is \<open>{"parameter": <js>}\<close>,
  where \<open><js>\<close> is the serialization of exactly the parameters without the file type
  tag, in order: the object of the parameter when there is one, the array of the objects
  otherwise. If at least one parameter has the file type tag, the body is multipart:
  one file part per file parameter (in order), then the field \<open>json\<close> with that value,
  then the closing boundary, sent with the multipart content type. If no parameter has
  the file type tag, the body is the URL-encoded form of the single field \<open>json\<close> with the
  same value, sent with the content type \<open>application/x-www-form-urlencoded\<close>.
\<close>

theorem BuildWithParams_body:
  assumes "\<forall>p \<in> set parameters. Type p = FileParameterDefinition \<longrightarrow>
             (\<exists>content. fs (Filepath p) = Inr content)"
    and "\<forall>p \<in> set parameters. Type p \<noteq> FileParameterDefinition \<longrightarrow> encodable p"
  shows "BuildWithParams quote boundary fs RequestWithoutData w jobName parameters =
     (let js = (if length (string_parameters parameters) = 1
                 then object_text quote (hd (string_parameters parameters))
                 else ''['' @ Join (map (object_text quote) (string_parameters parameters)) '','' @
                      '']'');
          json = ''{\"parameter\": '' @ js @ ''}'';
          req =
            (if file_parameters parameters \<noteq> [] then
               \<lparr>req_method = ''POST'', req_api = ParseJobPath jobName @ ''/build'',
                req_headers = [''Content-Type'' \<mapsto> ''multipart/form-data; boundary='' @ boundary],
                req_payload = Some (MultipartBuffer
                  (map (file_part fs) (file_parameters parameters) @
                   [FormField ''json'' json, ClosingBoundary]))\<rparr>
             else
               \<lparr>req_method = ''POST'', req_api = ParseJobPath jobName @ ''/build'',
                req_headers = [''Content-Type'' \<mapsto> ''application/x-www-form-urlencoded''],
                req_payload = Some (StringReader (''json='' @ QueryEscape json))\<rparr>)
      in (snd (fst (RequestWithoutData w req 201)), snd (RequestWithoutData w req 201)))"
proof -
  have js: "paramJSON quote (string_parameters parameters) =
      Inr (if length (string_parameters parameters) = 1
                 then object_text quote (hd (string_parameters parameters))
                 else ''['' @ Join (map (object_text quote) (string_parameters parameters)) '','' @
                      '']'')"
    by (rule paramJSON_encodable [OF string_parameters_encodable [OF assms(2)]])
  show ?thesis
    unfolding BuildWithParams_sends [OF assms(1) js, of boundary RequestWithoutData w jobName]
    by (simp only: build_request_def ContentType_def Let_def)
qed

theorem BuildWithParams_body_witness:
  "BuildWithParams (\<lambda>s. ''\"'' @ s @ ''\"'') ''B''
     (\<lambda>path. if path = ''/tmp/a.txt'' then Inr ''hello'' else Inl (PathError path))
     (\<lambda>w req code. ((201, None), w @ [req])) [] ''a''
     [sample_parameter ''X'' ''StringParameterDefinition'' ''1'' [],
      sample_parameter ''F'' ''FileParameterDefinition'' [] ''/tmp/a.txt''] =
     (None,
      [\<lparr>req_method = ''POST'', req_api = ''/job/a/build'',
        req_headers = [''Content-Type'' \<mapsto> ''multipart/form-data; boundary=B''],
        req_payload = Some (MultipartBuffer
          [FormFile ''/tmp/a.txt'' ''a.txt'' ''hello'',
           FormField ''json'' ''{\"parameter\": {\"Description\":\"\",\"name\":\"X\",\"Type\":\"StringParameterDefinition\",\"value\":\"1\",\"file\":\"\",\"DefaultParameterValue\":{\"Description\":\"\",\"Value\":null}}}'',
           ClosingBoundary])\<rparr>]) \<and>
   BuildWithParams (\<lambda>s. ''\"'' @ s @ ''\"'') ''B''
     (\<lambda>path. if path = ''/tmp/a.txt'' then Inr ''hello'' else Inl (PathError path))
     (\<lambda>w req code. ((201, None), w @ [req])) [] ''a''
     [sample_parameter ''X'' ''StringParameterDefinition'' ''1'' [],
      sample_parameter ''F'' ''FileParameterDefinition'' [] ''/tmp/a.txt'',
      sample_parameter ''Y'' ''StringParameterDefinition'' ''2'' []] =
     (None,
      [\<lparr>req_method = ''POST'', req_api = ''/job/a/build'',
        req_headers = [''Content-Type'' \<mapsto> ''multipart/form-data; boundary=B''],
        req_payload = Some (MultipartBuffer
          [FormFile ''/tmp/a.txt'' ''a.txt'' ''hello'',
           FormField ''json'' ''{\"parameter\": [{\"Description\":\"\",\"name\":\"X\",\"Type\":\"StringParameterDefinition\",\"value\":\"1\",\"file\":\"\",\"DefaultParameterValue\":{\"Description\":\"\",\"Value\":null}},{\"Description\":\"\",\"name\":\"Y\",\"Type\":\"StringParameterDefinition\",\"value\":\"2\",\"file\":\"\",\"DefaultParameterValue\":{\"Description\":\"\",\"Value\":null}}]}'',
           ClosingBoundary])\<rparr>]) \<and>
   BuildWithParams (\<lambda>s. ''\"'' @ s @ ''\"'') ''B''
     (\<lambda>path. if path = ''/tmp/a.txt'' then Inr ''hello'' else Inl (PathError path))
     (\<lambda>w req code. ((201, None), w @ [req])) [] ''a''
     [sample_parameter ''X'' ''StringParameterDefinition'' ''1'' []] =
     (None,
      [\<lparr>req_method = ''POST'', req_api = ''/job/a/build'',
        req_headers = [''Content-Type'' \<mapsto> ''application/x-www-form-urlencoded''],
        req_payload = Some (StringReader
          ''json=%7B%22parameter%22%3A+%7B%22Description%22%3A%22%22%2C%22name%22%3A%22X%22%2C%22Type%22%3A%22StringParameterDefinition%22%2C%22value%22%3A%221%22%2C%22file%22%3A%22%22%2C%22DefaultParameterValue%22%3A%7B%22Description%22%3A%22%22%2C%22Value%22%3Anull%7D%7D%7D'')\<rparr>]) \<and>
   BuildWithParams (\<lambda>s. ''\"'' @ s @ ''\"'') ''B''
     (\<lambda>path. if path = ''/tmp/a.txt'' then Inr ''hello'' else Inl (PathError path))
     (\<lambda>w req code. ((201, None), w @ [req])) [] ''a''
     [sample_parameter ''X'' ''StringParameterDefinition'' ''1'' [],
      sample_parameter ''Y'' ''StringParameterDefinition'' ''2'' []] =
     (None,
      [\<lparr>req_method = ''POST'', req_api = ''/job/a/build'',
        req_headers = [''Content-Type'' \<mapsto> ''application/x-www-form-urlencoded''],
        req_payload = Some (StringReader
          ''json=%7B%22parameter%22%3A+%5B%7B%22Description%22%3A%22%22%2C%22name%22%3A%22X%22%2C%22Type%22%3A%22StringParameterDefinition%22%2C%22value%22%3A%221%22%2C%22file%22%3A%22%22%2C%22DefaultParameterValue%22%3A%7B%22Description%22%3A%22%22%2C%22Value%22%3Anull%7D%7D%2C%7B%22Description%22%3A%22%22%2C%22name%22%3A%22Y%22%2C%22Type%22%3A%22StringParameterDefinition%22%2C%22value%22%3A%222%22%2C%22file%22%3A%22%22%2C%22DefaultParameterValue%22%3A%7B%22Description%22%3A%22%22%2C%22Value%22%3Anull%7D%7D%5D%7D'')\<rparr>]) \<and>
   BuildWithParams (\<lambda>s. ''\"'' @ s @ ''\"'') ''B''
     (\<lambda>path. if path = ''/tmp/a.txt'' then Inr ''hello'' else Inl (PathError path))
     (\<lambda>w req code. ((201, None), w @ [req])) [] ''a''
     [] =
     (None,
      [\<lparr>req_method = ''POST'', req_api = ''/job/a/build'',
        req_headers = [''Content-Type'' \<mapsto> ''application/x-www-form-urlencoded''],
        req_payload = Some (StringReader
          ''json=%7B%22parameter%22%3A+%5B%5D%7D'')\<rparr>])"
proof -
  have opens_xf: "\<forall>p \<in> set [sample_parameter ''X'' ''StringParameterDefinition'' ''1'' [],
      sample_parameter ''F'' ''FileParameterDefinition'' [] ''/tmp/a.txt''].
      Type p = FileParameterDefinition \<longrightarrow>
      (\<exists>content. (\<lambda>path. if path = ''/tmp/a.txt'' then Inr ''hello'' else Inl (PathError path)) (Filepath p) = Inr content)"
    by (simp add: sample_parameter_def FileParameterDefinition_def)
  have enc_xf: "\<forall>p \<in> set [sample_parameter ''X'' ''StringParameterDefinition'' ''1'' [],
      sample_parameter ''F'' ''FileParameterDefinition'' [] ''/tmp/a.txt''].
      Type p \<noteq> FileParameterDefinition \<longrightarrow> encodable p"
    by (simp add: sample_parameter_def encodable_def FileParameterDefinition_def)
  have opens_xfy: "\<forall>p \<in> set [sample_parameter ''X'' ''StringParameterDefinition'' ''1'' [],
      sample_parameter ''F'' ''FileParameterDefinition'' [] ''/tmp/a.txt'',
      sample_parameter ''Y'' ''StringParameterDefinition'' ''2'' []].
      Type p = FileParameterDefinition \<longrightarrow>
      (\<exists>content. (\<lambda>path. if path = ''/tmp/a.txt'' then Inr ''hello'' else Inl (PathError path)) (Filepath p) = Inr content)"
    by (simp add: sample_parameter_def FileParameterDefinition_def)
  have enc_xfy: "\<forall>p \<in> set [sample_parameter ''X'' ''StringParameterDefinition'' ''1'' [],
      sample_parameter ''F'' ''FileParameterDefinition'' [] ''/tmp/a.txt'',
      sample_parameter ''Y'' ''StringParameterDefinition'' ''2'' []].
      Type p \<noteq> FileParameterDefinition \<longrightarrow> encodable p"
    by (simp add: sample_parameter_def encodable_def FileParameterDefinition_def)
  have opens_x: "\<forall>p \<in> set [sample_parameter ''X'' ''StringParameterDefinition'' ''1'' []].
      Type p = FileParameterDefinition \<longrightarrow>
      (\<exists>content. (\<lambda>path. if path = ''/tmp/a.txt'' then Inr ''hello'' else Inl (PathError path)) (Filepath p) = Inr content)"
    by (simp add: sample_parameter_def FileParameterDefinition_def)
  have enc_x: "\<forall>p \<in> set [sample_parameter ''X'' ''StringParameterDefinition'' ''1'' []].
      Type p \<noteq> FileParameterDefinition \<longrightarrow> encodable p"
    by (simp add: sample_parameter_def encodable_def FileParameterDefinition_def)
  have opens_xy: "\<forall>p \<in> set [sample_parameter ''X'' ''StringParameterDefinition'' ''1'' [],
      sample_parameter ''Y'' ''StringParameterDefinition'' ''2'' []].
      Type p = FileParameterDefinition \<longrightarrow>
      (\<exists>content. (\<lambda>path. if path = ''/tmp/a.txt'' then Inr ''hello'' else Inl (PathError path)) (Filepath p) = Inr content)"
    by (simp add: sample_parameter_def FileParameterDefinition_def)
  have enc_xy: "\<forall>p \<in> set [sample_parameter ''X'' ''StringParameterDefinition'' ''1'' [],
      sample_parameter ''Y'' ''StringParameterDefinition'' ''2'' []].
      Type p \<noteq> FileParameterDefinition \<longrightarrow> encodable p"
    by (simp add: sample_parameter_def encodable_def FileParameterDefinition_def)
  have opens_none: "\<forall>p \<in> set ([] :: ParameterDefinition list).
      Type p = FileParameterDefinition \<longrightarrow>
      (\<exists>content. (\<lambda>path. if path = ''/tmp/a.txt'' then Inr ''hello'' else Inl (PathError path)) (Filepath p) = Inr content)"
    by (simp add: sample_parameter_def FileParameterDefinition_def)
  have enc_none: "\<forall>p \<in> set ([] :: ParameterDefinition list).
      Type p \<noteq> FileParameterDefinition \<longrightarrow> encodable p"
    by (simp add: sample_parameter_def encodable_def FileParameterDefinition_def)
  show ?thesis
    using BuildWithParams_body [OF opens_xf enc_xf, of "(\<lambda>s. ''\"'' @ s @ ''\"'')" "''B''"
        "(\<lambda>w req code. ((201, None), w @ [req]))" "[]" "''a''"]
      BuildWithParams_body [OF opens_xfy enc_xfy, of "(\<lambda>s. ''\"'' @ s @ ''\"'')" "''B''"
        "(\<lambda>w req code. ((201, None), w @ [req]))" "[]" "''a''"]
      BuildWithParams_body [OF opens_x enc_x, of "(\<lambda>s. ''\"'' @ s @ ''\"'')" "''B''"
        "(\<lambda>w req code. ((201, None), w @ [req]))" "[]" "''a''"]
      BuildWithParams_body [OF opens_xy enc_xy, of "(\<lambda>s. ''\"'' @ s @ ''\"'')" "''B''"
        "(\<lambda>w req code. ((201, None), w @ [req]))" "[]" "''a''"]
      BuildWithParams_body [OF opens_none enc_none, of "(\<lambda>s. ''\"'' @ s @ ''\"'')" "''B''"
        "(\<lambda>w req code. ((201, None), w @ [req]))" "[]" "''a''"]
    by (simp add: sample_parameter_def FileParameterDefinition_def
      file_parameters_def string_parameters_def file_part_def filepath_Base_def ParseJobPath_def
      HasPrefix_def ContentType_def QueryEscape_def escape_byte_def shouldEscape_def
      object_text_def any_text_def Let_def)
qed

text \<open>
  Claim C2. In the request that \<open>BuildWithParams\<close> issues, the JSON inside
  \<open>{"parameter": ...}\<close> is the single JSON object of the parameter when exactly one
  parameter is not a file parameter, and otherwise (none, or two and more) the JSON array
  of the objects of those parameters, in order. Every such object begins with an opening
  brace and ends with a closing brace.
\<close>

theorem BuildWithParams_object_or_array:
  assumes "\<forall>p \<in> set parameters. Type p = FileParameterDefinition \<longrightarrow>
             (\<exists>content. fs (Filepath p) = Inr content)"
    and "\<forall>p \<in> set parameters. Type p \<noteq> FileParameterDefinition \<longrightarrow> encodable p"
  shows "BuildWithParams quote boundary fs RequestWithoutData w jobName parameters =
       (snd (fst (RequestWithoutData w
          (build_request boundary fs jobName parameters
             (if length (string_parameters parameters) = 1
              then object_text quote (hd (string_parameters parameters))
              else ''['' @ Join (map (object_text quote) (string_parameters parameters)) '','' @ '']''))
          201)),
        snd (RequestWithoutData w
          (build_request boundary fs jobName parameters
             (if length (string_parameters parameters) = 1
              then object_text quote (hd (string_parameters parameters))
              else ''['' @ Join (map (object_text quote) (string_parameters parameters)) '','' @ '']''))
          201)) \<and>
     (\<forall>p. hd (object_text quote p) = CHR ''{'' \<and> last (object_text quote p) = CHR ''}'')"
proof -
  have js: "paramJSON quote (string_parameters parameters) =
      Inr (if length (string_parameters parameters) = 1
           then object_text quote (hd (string_parameters parameters))
           else ''['' @ Join (map (object_text quote) (string_parameters parameters)) '','' @ '']'')"
    by (rule paramJSON_encodable [OF string_parameters_encodable [OF assms(2)]])
  have braces: "\<forall>p. hd (object_text quote p) = CHR ''{'' \<and> last (object_text quote p) = CHR ''}''"
    using object_text_braces [of quote] by (intro allI)
  from BuildWithParams_sends [OF assms(1) js, of boundary RequestWithoutData w jobName] braces
  show ?thesis by (intro conjI)
qed

theorem BuildWithParams_object_or_array_witness:
  "BuildWithParams (\<lambda>s. ''\"'' @ s @ ''\"'') ''B''
     (\<lambda>path. if path = ''/tmp/a.txt'' then Inr ''hello'' else Inl (PathError path))
     (\<lambda>w req code. ((201, None), w @ [req])) [] ''a''
     [sample_parameter ''X'' ''StringParameterDefinition'' ''1'' [],
      sample_parameter ''F'' ''FileParameterDefinition'' [] ''/tmp/a.txt''] =
     (None,
      [\<lparr>req_method = ''POST'', req_api = ''/job/a/build'',
        req_headers = [''Content-Type'' \<mapsto> ''multipart/form-data; boundary=B''],
        req_payload = Some (MultipartBuffer
          [FormFile ''/tmp/a.txt'' ''a.txt'' ''hello'',
           FormField ''json'' ''{\"parameter\": {\"Description\":\"\",\"name\":\"X\",\"Type\":\"StringParameterDefinition\",\"value\":\"1\",\"file\":\"\",\"DefaultParameterValue\":{\"Description\":\"\",\"Value\":null}}}'',
           ClosingBoundary])\<rparr>]) \<and>
   BuildWithParams (\<lambda>s. ''\"'' @ s @ ''\"'') ''B''
     (\<lambda>path. if path = ''/tmp/a.txt'' then Inr ''hello'' else Inl (PathError path))
     (\<lambda>w req code. ((201, None), w @ [req])) [] ''a''
     [sample_parameter ''X'' ''StringParameterDefinition'' ''1'' [],
      sample_parameter ''F'' ''FileParameterDefinition'' [] ''/tmp/a.txt'',
      sample_parameter ''Y'' ''StringParameterDefinition'' ''2'' []] =
     (None,
      [\<lparr>req_method = ''POST'', req_api = ''/job/a/build'',
        req_headers = [''Content-Type'' \<mapsto> ''multipart/form-data; boundary=B''],
        req_payload = Some (MultipartBuffer
          [FormFile ''/tmp/a.txt'' ''a.txt'' ''hello'',
           FormField ''json'' ''{\"parameter\": [{\"Description\":\"\",\"name\":\"X\",\"Type\":\"StringParameterDefinition\",\"value\":\"1\",\"file\":\"\",\"DefaultParameterValue\":{\"Description\":\"\",\"Value\":null}},{\"Description\":\"\",\"name\":\"Y\",\"Type\":\"StringParameterDefinition\",\"value\":\"2\",\"file\":\"\",\"DefaultParameterValue\":{\"Description\":\"\",\"Value\":null}}]}'',
           ClosingBoundary])\<rparr>]) \<and>
   BuildWithParams (\<lambda>s. ''\"'' @ s @ ''\"'') ''B''
     (\<lambda>path. if path = ''/tmp/a.txt'' then Inr ''hello'' else Inl (PathError path))
     (\<lambda>w req code. ((201, None), w @ [req])) [] ''a''
     [sample_parameter ''F'' ''FileParameterDefinition'' [] ''/tmp/a.txt''] =
     (None,
      [\<lparr>req_method = ''POST'', req_api = ''/job/a/build'',
        req_headers = [''Content-Type'' \<mapsto> ''multipart/form-data; boundary=B''],
        req_payload = Some (MultipartBuffer
          [FormFile ''/tmp/a.txt'' ''a.txt'' ''hello'',
           FormField ''json'' ''{\"parameter\": []}'',
           ClosingBoundary])\<rparr>])"
proof -
  have opens_one: "\<forall>p \<in> set [sample_parameter ''X'' ''StringParameterDefinition'' ''1'' [],
      sample_parameter ''F'' ''FileParameterDefinition'' [] ''/tmp/a.txt''].
      Type p = FileParameterDefinition \<longrightarrow>
      (\<exists>content. (\<lambda>path. if path = ''/tmp/a.txt'' then Inr ''hello'' else Inl (PathError path)) (Filepath p) = Inr content)"
    by (simp add: sample_parameter_def FileParameterDefinition_def)
  have enc_one: "\<forall>p \<in> set [sample_parameter ''X'' ''StringParameterDefinition'' ''1'' [],
      sample_parameter ''F'' ''FileParameterDefinition'' [] ''/tmp/a.txt''].
      Type p \<noteq> FileParameterDefinition \<longrightarrow> encodable p"
    by (simp add: sample_parameter_def encodable_def FileParameterDefinition_def)
  have opens_two: "\<forall>p \<in> set [sample_parameter ''X'' ''StringParameterDefinition'' ''1'' [],
      sample_parameter ''F'' ''FileParameterDefinition'' [] ''/tmp/a.txt'',
      sample_parameter ''Y'' ''StringParameterDefinition'' ''2'' []].
      Type p = FileParameterDefinition \<longrightarrow>
      (\<exists>content. (\<lambda>path. if path = ''/tmp/a.txt'' then Inr ''hello'' else Inl (PathError path)) (Filepath p) = Inr content)"
    by (simp add: sample_parameter_def FileParameterDefinition_def)
  have enc_two: "\<forall>p \<in> set [sample_parameter ''X'' ''StringParameterDefinition'' ''1'' [],
      sample_parameter ''F'' ''FileParameterDefinition'' [] ''/tmp/a.txt'',
      sample_parameter ''Y'' ''StringParameterDefinition'' ''2'' []].
      Type p \<noteq> FileParameterDefinition \<longrightarrow> encodable p"
    by (simp add: sample_parameter_def encodable_def FileParameterDefinition_def)
  have opens_none: "\<forall>p \<in> set [sample_parameter ''F'' ''FileParameterDefinition'' [] ''/tmp/a.txt''].
      Type p = FileParameterDefinition \<longrightarrow>
      (\<exists>content. (\<lambda>path. if path = ''/tmp/a.txt'' then Inr ''hello'' else Inl (PathError path)) (Filepath p) = Inr content)"
    by (simp add: sample_parameter_def FileParameterDefinition_def)
  have enc_none: "\<forall>p \<in> set [sample_parameter ''F'' ''FileParameterDefinition'' [] ''/tmp/a.txt''].
      Type p \<noteq> FileParameterDefinition \<longrightarrow> encodable p"
    by (simp add: sample_parameter_def encodable_def FileParameterDefinition_def)
  show ?thesis
    using BuildWithParams_object_or_array [OF opens_one enc_one, of "(\<lambda>s. ''\"'' @ s @ ''\"'')" "''B''"
        "(\<lambda>w req code. ((201, None), w @ [req]))" "[]" "''a''"]
      BuildWithParams_object_or_array [OF opens_two enc_two, of "(\<lambda>s. ''\"'' @ s @ ''\"'')" "''B''"
        "(\<lambda>w req code. ((201, None), w @ [req]))" "[]" "''a''"]
      BuildWithParams_object_or_array [OF opens_none enc_none, of "(\<lambda>s. ''\"'' @ s @ ''\"'')" "''B''"
        "(\<lambda>w req code. ((201, None), w @ [req]))" "[]" "''a''"]
    by (simp add: sample_parameter_def FileParameterDefinition_def build_request_def
      file_parameters_def string_parameters_def file_part_def filepath_Base_def ParseJobPath_def
      HasPrefix_def ContentType_def QueryEscape_def escape_byte_def shouldEscape_def
      paramJSON_def Marshal_ParameterDefinition_def Marshal_ParameterDefinitions_def
      Marshal_DefaultParameterValue_def Marshal_any_def object_text_def any_text_def encodable_def)
qed

text \<open>
  Claim C7. If some parameter with the file type tag names a file that cannot be opened,
  \<open>BuildWithParams\<close> returns the error of opening the first such file and leaves the
  world as it was: with the collaborator traced, the list of requests is unchanged, so no
  request is issued.
\<close>

theorem BuildWithParams_unopenable_file:
  assumes "p \<in> set parameters" and "Type p = FileParameterDefinition"
    and "fs (Filepath p) = Inl e"
  shows "\<exists>q e'. find (\<lambda>p. Type p = FileParameterDefinition \<and> isl (fs (Filepath p))) parameters = Some q \<and>
     fs (Filepath q) = Inl e' \<and>
     BuildWithParams quote boundary fs RequestWithoutData w jobName parameters = (Some e', w) \<and>
     BuildWithParams quote boundary fs (traced RequestWithoutData) (w, log) jobName parameters =
       (Some e', (w, log))"
proof -
  let ?P = "\<lambda>p. Type p = FileParameterDefinition \<and> isl (fs (Filepath p))"
  have "?P p" using assms by simp
  with assms(1) have "find ?P parameters \<noteq> None" by (auto simp: find_None_iff)
  then obtain q where q: "find ?P parameters = Some q" by auto
  then have "?P q" by (auto simp: find_Some_iff)
  then obtain e' where e': "fs (Filepath q) = Inl e'" by (cases "fs (Filepath q)") auto
  have "BuildWithParams_loop fs parameters [] False [] = Inl e'"
    using BuildWithParams_loop_fails [OF q, of "[]" False "[]"] e' by simp
  then have "BuildWithParams quote boundary fs RequestWithoutData w jobName parameters = (Some e', w)"
    and "BuildWithParams quote boundary fs (traced RequestWithoutData) (w, log) jobName parameters =
       (Some e', (w, log))"
    by (simp_all add: BuildWithParams_def)
  with q e' show ?thesis by (intro exI [of _ q] exI [of _ e'] conjI)
qed



theorem BuildWithParams_unopenable_file_witness:
  "BuildWithParams (\<lambda>s. ''\"'' @ s @ ''\"'') ''B''
     (\<lambda>path. if path = ''/tmp/a.txt'' then Inr ''hello'' else Inl (PathError path))
     (traced (\<lambda>w req code. ((201, None), w @ [req]))) ([], []) ''a''
     [sample_parameter ''F'' ''FileParameterDefinition'' [] ''/tmp/a.txt'',
      sample_parameter ''X'' ''StringParameterDefinition'' ''1'' [],
      sample_parameter ''G'' ''FileParameterDefinition'' [] ''/tmp/missing''] =
     (Some (PathError ''/tmp/missing''), ([], []))"
proof -
  have g: "sample_parameter ''G'' ''FileParameterDefinition'' [] ''/tmp/missing'' \<in> set [sample_parameter ''F'' ''FileParameterDefinition'' [] ''/tmp/a.txt'',
      sample_parameter ''X'' ''StringParameterDefinition'' ''1'' [],
      sample_parameter ''G'' ''FileParameterDefinition'' [] ''/tmp/missing'']"
    by simp
  have t: "Type (sample_parameter ''G'' ''FileParameterDefinition'' [] ''/tmp/missing'') = FileParameterDefinition"
    by (simp add: sample_parameter_def FileParameterDefinition_def)
  have e: "(\<lambda>path. if path = ''/tmp/a.txt'' then Inr ''hello'' else Inl (PathError path)) (Filepath (sample_parameter ''G'' ''FileParameterDefinition'' [] ''/tmp/missing'')) = Inl (PathError ''/tmp/missing'')"
    by (simp add: sample_parameter_def)
  show ?thesis
    using g t e
      BuildWithParams_unopenable_file [of "sample_parameter ''G'' ''FileParameterDefinition'' [] ''/tmp/missing''"
        "[sample_parameter ''F'' ''FileParameterDefinition'' [] ''/tmp/a.txt'',
      sample_parameter ''X'' ''StringParameterDefinition'' ''1'' [],
      sample_parameter ''G'' ''FileParameterDefinition'' [] ''/tmp/missing'']"
        "(\<lambda>path. if path = ''/tmp/a.txt'' then Inr ''hello'' else Inl (PathError path))"
        "PathError ''/tmp/missing''" "(\<lambda>s. ''\"'' @ s @ ''\"'')" "''B''"
        "(\<lambda>w req code. ((201, None), w @ [req]))" "[]" "''a''" "[]"]
    by (auto simp: sample_parameter_def FileParameterDefinition_def)
qed

section \<open>Properties of the plugin operations\<close>

lemma FindInstalledPlugin_loop_None:
  "FindInstalledPlugin_loop ps name = None \<longleftrightarrow> (\<forall>p \<in> set ps. ShortName p \<noteq> name)"
  by (induction ps) auto

text \<open>
  Claim C10. When the plugin list is fetched (a list and no error), \<open>FindInstalledPlugin\<close>
  returns a nil plugin and a nil error if no plugin of the list has the requested short
  name; and it returns that pair only then. A missing plugin is not an error.
\<close>

theorem FindInstalledPlugin_absent:
  assumes "GetPlugins RequestWithData w 1 = ((Some pl, None), w')"
  shows "((\<forall>p \<in> set (Plugins pl). ShortName p \<noteq> name) \<longrightarrow>
            FindInstalledPlugin RequestWithData w name = (Returns (None, None), w')) \<and>
         (fst (FindInstalledPlugin RequestWithData w name) = Returns (None, None) \<longleftrightarrow>
            (\<forall>p \<in> set (Plugins pl). ShortName p \<noteq> name))"
  using assms by (auto simp: FindInstalledPlugin_def FindInstalledPlugin_loop_None)

theorem FindInstalledPlugin_absent_witness:
  "GetPlugins
     (\<lambda>w req code. ((Some \<lparr>Plugins = [sample_plugin ''git'', sample_plugin ''junit'']\<rparr>, None), w))
     () 1 =
     ((Some \<lparr>Plugins = [sample_plugin ''git'', sample_plugin ''junit'']\<rparr>, None), ()) \<and>
   ShortName (sample_plugin ''git'') \<noteq> ''blueocean'' \<and>
   ShortName (sample_plugin ''junit'') \<noteq> ''blueocean'' \<and>
   FindInstalledPlugin
     (\<lambda>w req code. ((Some \<lparr>Plugins = [sample_plugin ''git'', sample_plugin ''junit'']\<rparr>, None), w))
     () ''blueocean'' = (Returns (None, None), ()) \<and>
   fst (FindInstalledPlugin
     (\<lambda>w req code. ((Some \<lparr>Plugins = [sample_plugin ''git'', sample_plugin ''junit'']\<rparr>, None), w))
     () ''junit'') = Returns (Some (sample_plugin ''junit''), None)"
proof -
  have fetched: "GetPlugins
     (\<lambda>w req code. ((Some \<lparr>Plugins = [sample_plugin ''git'', sample_plugin ''junit'']\<rparr>, None), w))
     () 1 =
     ((Some \<lparr>Plugins = [sample_plugin ''git'', sample_plugin ''junit'']\<rparr>, None), ())"
    by (simp add: GetPlugins_def)
  have names: "ShortName (sample_plugin ''git'') = ''git''"
    "ShortName (sample_plugin ''junit'') = ''junit''"
    by (simp_all add: sample_plugin_def)
  have found: "fst (FindInstalledPlugin
     (\<lambda>w req code. ((Some \<lparr>Plugins = [sample_plugin ''git'', sample_plugin ''junit'']\<rparr>, None), w))
     () ''junit'') = Returns (Some (sample_plugin ''junit''), None)"
    by (simp add: FindInstalledPlugin_def GetPlugins_def names)
  show ?thesis
    using fetched found FindInstalledPlugin_absent [OF fetched, of "''blueocean''"]
    by (simp add: names)
qed

end
